theory Spec2Isabelle
  imports Complex_Main "HOL-Library.Word"
begin

unbundle bit_operations_syntax

section \<open>JavaScript strings, sets and maps\<close>

text \<open>
  A JavaScript string is a sequence of UTF-16 code units. The model uses \<^typ>\<open>string\<close>:
  every \<^typ>\<open>char\<close> stands for the code unit with the same number, so the model covers the
  strings whose code units are all below 256. \<open>charCodeAt\<close> is \<open>charCode\<close> and \<open>length\<close>
  counts code units. JavaScript numbers are modelled as exact reals (\<open>Math.log\<close> is \<open>ln\<close>,
  \<open>Math.floor\<close> is \<open>floor\<close>); counts and indices that the code only ever produces as
  non-negative integers are \<^typ>\<open>nat\<close>.
\<close>

definition charCode :: "char \<Rightarrow> nat" where
  "charCode c = of_char c"

definition isLowerAZ :: "char \<Rightarrow> bool" where
  \<comment> \<open>the regex class \<open>[a-z]\<close>\<close>
  "isLowerAZ c = (97 \<le> charCode c \<and> charCode c \<le> 122)"

definition isUpperAZ :: "char \<Rightarrow> bool" where
  \<comment> \<open>the regex class \<open>[A-Z]\<close>\<close>
  "isUpperAZ c = (65 \<le> charCode c \<and> charCode c \<le> 90)"

definition isDigit :: "char \<Rightarrow> bool" where
  "isDigit c = (48 \<le> charCode c \<and> charCode c \<le> 57)"

definition isWordChar :: "char \<Rightarrow> bool" where
  \<comment> \<open>the regex class \<open>\w\<close>, that is \<open>[A-Za-z0-9_]\<close>\<close>
  "isWordChar c = (isLowerAZ c \<or> isUpperAZ c \<or> isDigit c \<or> charCode c = 95)"

definition isSpace :: "char \<Rightarrow> bool" where
  \<comment> \<open>the regex class \<open>\s\<close> on code units below 256: TAB, LF, VT, FF, CR, space, NBSP;
      the same characters are removed by \<open>trim\<close>\<close>
  "isSpace c = (charCode c \<in> {9, 10, 11, 12, 13, 32, 160})"

definition isQuote :: "char \<Rightarrow> bool" where
  \<comment> \<open>the regex class \<open>['"]\<close>\<close>
  "isQuote c = (charCode c = 39 \<or> charCode c = 34)"

definition toLowerChar :: "char \<Rightarrow> char" where
  \<comment> \<open>\<open>toLowerCase\<close> on one code unit below 256: A-Z and the Latin-1 capitals
      (0xC0-0xDE without the multiplication sign 0xD7) move up by 32\<close>
  "toLowerChar c =
     (if isUpperAZ c \<or> (192 \<le> charCode c \<and> charCode c \<le> 222 \<and> charCode c \<noteq> 215)
      then char_of (charCode c + 32) else c)"

definition toLowerCase :: "string \<Rightarrow> string" where
  "toLowerCase s = map toLowerChar s"

definition trim :: "string \<Rightarrow> string" where
  "trim s = rev (dropWhile isSpace (rev (dropWhile isSpace s)))"

text \<open>
  \<open>s.split(re)\<close> for a regex \<open>re = [class]+\<close> that matches a non-empty run of separator
  characters: the pieces between the runs, with an empty first piece when the string
  starts with a separator and an empty last piece when it ends with one; the empty string
  gives one empty piece.
\<close>

function splitRuns :: "(char \<Rightarrow> bool) \<Rightarrow> string \<Rightarrow> string \<Rightarrow> string list" where
  "splitRuns sep cur [] = [cur]"
| "splitRuns sep cur (c # cs) =
     (if sep c then cur # splitRuns sep [] (dropWhile sep cs)
      else splitRuns sep (cur @ [c]) cs)"
  by pat_completeness auto
termination
  by (relation "measure (\<lambda>(sep, cur, s). length s)")
     (auto simp: le_imp_less_Suc length_dropWhile_le)

definition splitRegex :: "(char \<Rightarrow> bool) \<Rightarrow> string \<Rightarrow> string list" where
  "splitRegex sep s = splitRuns sep [] s"

text \<open>\<open>s.split(",")\<close> with a one-character string separator: every occurrence cuts.\<close>

fun splitCharAcc :: "char \<Rightarrow> string \<Rightarrow> string \<Rightarrow> string list" where
  "splitCharAcc d cur [] = [cur]"
| "splitCharAcc d cur (c # cs) =
     (if c = d then cur # splitCharAcc d [] cs else splitCharAcc d (cur @ [c]) cs)"

definition splitChar :: "char \<Rightarrow> string \<Rightarrow> string list" where
  "splitChar d s = splitCharAcc d [] s"

text \<open>
  A JavaScript \<open>Set\<close> keeps its elements in insertion order, a \<open>Map\<close> its entries in the
  order in which the keys were first set. Both are lists here: \<open>set_add\<close> is \<open>Set.add\<close>,
  \<open>map_set\<close> is \<open>Map.set\<close> (an existing key keeps its place), \<open>map_get\<close> is \<open>Map.get\<close>
  with \<open>None\<close> for \<open>undefined\<close>, \<open>new_Set\<close> and \<open>new_Map\<close> are the constructors from an
  array, and \<open>Array.from(m.entries())\<close> is the list itself.
\<close>

definition set_add :: "'a \<Rightarrow> 'a list \<Rightarrow> 'a list" where
  "set_add x s = (if x \<in> set s then s else s @ [x])"

definition new_Set :: "'a list \<Rightarrow> 'a list" where
  "new_Set xs = foldl (\<lambda>s x. set_add x s) [] xs"

fun map_set :: "'k \<Rightarrow> 'v \<Rightarrow> ('k \<times> 'v) list \<Rightarrow> ('k \<times> 'v) list" where
  "map_set k v [] = [(k, v)]"
| "map_set k v (p # ps) = (if fst p = k then (k, v) # ps else p # map_set k v ps)"

definition map_get :: "('k \<times> 'v) list \<Rightarrow> 'k \<Rightarrow> 'v option" where
  "map_get m k = map_of m k"

definition map_has :: "('k \<times> 'v) list \<Rightarrow> 'k \<Rightarrow> bool" where
  "map_has m k = (map_of m k \<noteq> None)"

definition new_Map :: "('k \<times> 'v) list \<Rightarrow> ('k \<times> 'v) list" where
  "new_Map entries = foldl (\<lambda>m (k, v). map_set k v m) [] entries"

section \<open>Tokenizer\<close>

definition isCodeDelimiter :: "char \<Rightarrow> bool" where
  \<comment> \<open>the class of the first split of \<open>tokenizeCode\<close>:
      white space and \<open>, ; : { } ( ) [ ] < > ' " = + - * / \ | & ^ % $ # @ ! ~ `\<close>\<close>
  "isCodeDelimiter c =
     (isSpace c \<or> charCode c \<in> {44, 59, 58, 123, 125, 40, 41, 91, 93, 60, 62, 39, 34, 61, 43,
        45, 42, 47, 92, 124, 38, 94, 37, 36, 35, 64, 33, 126, 96})"

definition isPunctuation :: "char \<Rightarrow> bool" where
  \<comment> \<open>the class \<open>\p{P}\<close> (Unicode general category Punctuation) on code units below 256:
      \<open>! " # % & ' ( ) * , - . / : ; ? @ [ \ ] _ { }\<close> and the Latin-1 marks
      0xA1, 0xA7, 0xAB, 0xB6, 0xB7, 0xBB, 0xBF\<close>
  "isPunctuation c =
     (charCode c \<in> {33, 34, 35, 37, 38, 39, 40, 41, 42, 44, 45, 46, 47, 58, 59, 63, 64,
        91, 92, 93, 95, 123, 125, 161, 167, 171, 182, 183, 187, 191})"

definition tokenizeSimple :: "string \<Rightarrow> string list" where
  "tokenizeSimple text =
     filter (\<lambda>token. length token > 1)
       (splitRegex (\<lambda>c. isSpace c \<or> isPunctuation c) (toLowerCase text))"

fun camelSplit :: "string \<Rightarrow> string" where
  \<comment> \<open>\<open>replace(/([a-z])([A-Z])/g, "$1 $2")\<close>: a match consumes both letters\<close>
  "camelSplit (a # b # cs) =
     (if isLowerAZ a \<and> isUpperAZ b then a # CHR '' '' # b # camelSplit cs
      else a # camelSplit (b # cs))"
| "camelSplit cs = cs"

definition isUnderscoreOrDash :: "char \<Rightarrow> bool" where
  "isUnderscoreOrDash c = (charCode c = 95 \<or> charCode c = 45)"

function underscoreSplit :: "string \<Rightarrow> string" where
  \<comment> \<open>\<open>replace(/[_-]+/g, " ")\<close>: each run becomes one space\<close>
  "underscoreSplit [] = []"
| "underscoreSplit (c # cs) =
     (if isUnderscoreOrDash c then CHR '' '' # underscoreSplit (dropWhile isUnderscoreOrDash cs)
      else c # underscoreSplit cs)"
  by pat_completeness auto
termination
  by (relation "measure length") (auto simp: le_imp_less_Suc length_dropWhile_le)

text \<open>
  \<open>replace(/([A-Z]+)([A-Z][a-z])/g, "$1 $2")\<close>. At a position that starts with a run of \<open>n\<close>
  capitals, the greedy \<open>[A-Z]+\<close> backtracks until the second group fits: the second group
  needs a capital followed by a lower-case letter, and the only capital of the run that can
  be followed by a non-capital is its last one. So the pattern matches there iff \<open>n \<ge> 2\<close>
  and the character after the run is in \<open>[a-z]\<close>; the first group is the run without its last
  letter, and the search goes on after the lower-case letter. Where it does not match, the
  character is copied and the search moves one position on.
\<close>

function acronymSplit :: "string \<Rightarrow> string" where
  "acronymSplit [] = []"
| "acronymSplit (c # cs) =
     (let run = takeWhile isUpperAZ (c # cs); rest = dropWhile isUpperAZ (c # cs) in
      if 2 \<le> length run \<and> rest \<noteq> [] \<and> isLowerAZ (hd rest)
      then butlast run @ CHR '' '' # last run # hd rest # acronymSplit (tl rest)
      else c # acronymSplit cs)"
  by pat_completeness auto
termination
proof (relation "measure length")
  fix c :: char and cs run rest
  assume r: "rest = dropWhile isUpperAZ (c # cs)"
  have "length (tl rest) \<le> length rest" by simp
  also have "\<dots> \<le> length (c # cs)" unfolding r by (rule length_dropWhile_le)
  finally have "length (tl rest) \<le> length (c # cs)" .
  moreover assume "2 \<le> length (run :: string) \<and> rest \<noteq> [] \<and> isLowerAZ (hd rest)"
  then have "length (tl rest) < length rest" by (cases rest) auto
  ultimately show "(tl rest, c # cs) \<in> measure length"
    using r length_dropWhile_le [of isUpperAZ "c # cs"] by simp
qed auto

definition isStopToken :: "string \<Rightarrow> bool" where
  "isStopToken token =
     (token \<in> set [''the'', ''is'', ''at'', ''of'', ''on'', ''and'', ''or'', ''to'', ''in'', ''it'',
        ''for'', ''as'', ''be'', ''by'', ''an'', ''if'', ''do'', ''no'', ''so'',
        ''var'', ''let'', ''const'', ''this'', ''that'', ''new'', ''null'', ''true'', ''false''])"

definition segmentTokens :: "string \<Rightarrow> string list" where
  \<comment> \<open>the body of the loop over the segments\<close>
  "segmentTokens segment =
     (if segment = [] then []
      else let camel = camelSplit segment;
               underscore = underscoreSplit camel;
               acronym = acronymSplit underscore;
               parts = splitRegex isSpace acronym
           in filter (\<lambda>lower. length lower > 1 \<and> \<not> isStopToken lower) (map toLowerCase parts))"

definition tokenizeCode :: "string \<Rightarrow> string list" where
  "tokenizeCode text = concat (map segmentTokens (splitRegex isCodeDelimiter text))"

section \<open>The BM25 sparse encoder (class \<open>SparseEmbedding\<close>)\<close>

datatype token_mode = Simple | Code

record sparse_config =
  k1 :: real
  b :: real
  minDf :: real
  maxDfRatio :: real
  sublinearTf :: bool
  tokenMode :: token_mode

record sparse_vector =
  indices :: "nat list"
  vals :: "real list"  \<comment> \<open>the field \<open>values\<close>\<close>

record encoder =
  config :: sparse_config
  vocabulary :: "(string \<times> nat) list"
  documentFrequency :: "(string \<times> nat) list"
  totalDocuments :: nat
  avgDocumentLength :: real
  idfCache :: "(string \<times> real) list"
  isInitialized :: bool

text \<open>The container of \<open>exportState\<close> and \<open>importState\<close>; its \<open>config\<close> is optional on import.\<close>

record encoder_state =
  s_vocabulary :: "(string \<times> nat) list"
  s_documentFrequency :: "(string \<times> nat) list"
  s_idfCache :: "(string \<times> real) list"
  s_totalDocuments :: nat
  s_avgDocumentLength :: real
  s_config :: "sparse_config option"

definition defaultConfig :: sparse_config where
  "defaultConfig =
     \<lparr>k1 = 1.2, b = 0.75, minDf = 1, maxDfRatio = 0.85, sublinearTf = False, tokenMode = Code\<rparr>"

definition newEncoder :: "sparse_config \<Rightarrow> encoder" where
  \<comment> \<open>the constructor, after the defaults have been filled in\<close>
  "newEncoder cfg =
     \<lparr>config = cfg, vocabulary = [], documentFrequency = [], totalDocuments = 0,
      avgDocumentLength = 0, idfCache = [], isInitialized = False\<rparr>"

definition tokenize :: "sparse_config \<Rightarrow> string \<Rightarrow> string list" where
  "tokenize cfg text = (if tokenMode cfg = Code then tokenizeCode text else tokenizeSimple text)"

text \<open>
  The first loop of \<open>buildVocabulary\<close>: \<open>termDocs\<close> maps a term to the set of the indices of
  the documents that contain it, \<open>totalLength\<close> adds up the token counts.
\<close>

fun addTerms :: "nat \<Rightarrow> string list \<Rightarrow> (string \<times> nat list) list \<Rightarrow> (string \<times> nat list) list" where
  "addTerms docIndex [] termDocs = termDocs"
| "addTerms docIndex (term # uniqueTerms) termDocs =
     addTerms docIndex uniqueTerms
       (let termDocs1 = (if \<not> map_has termDocs term then map_set term [] termDocs else termDocs)
        in map_set term (set_add docIndex (the (map_get termDocs1 term))) termDocs1)"

fun countDocs :: "sparse_config \<Rightarrow> nat \<Rightarrow> string list \<Rightarrow> nat \<times> (string \<times> nat list) list
    \<Rightarrow> nat \<times> (string \<times> nat list) list" where
  "countDocs cfg docIndex [] acc = acc"
| "countDocs cfg docIndex (doc # documents) (totalLength, termDocs) =
     (let tokens = tokenize cfg doc
      in countDocs cfg (Suc docIndex) documents
           (totalLength + length tokens, addTerms docIndex (new_Set tokens) termDocs))"

definition idfOf :: "nat \<Rightarrow> nat \<Rightarrow> real" where
  "idfOf n df = ln ((real n - real df + 0.5) / (real df + 0.5) + 1)"

text \<open>The second loop: the terms whose document frequency passes both bounds get the next index.\<close>

fun selectTerms :: "real \<Rightarrow> (string \<times> nat list) list \<Rightarrow> nat \<times> encoder \<Rightarrow> nat \<times> encoder" where
  "selectTerms maxDf [] acc = acc"
| "selectTerms maxDf ((term, docs) # termDocs) (vocabIndex, e) =
     (let df = length docs
      in if real df \<ge> minDf (config e) \<and> real df \<le> maxDf
         then selectTerms maxDf termDocs
                (Suc vocabIndex,
                 e\<lparr>vocabulary := map_set term vocabIndex (vocabulary e),
                   documentFrequency := map_set term df (documentFrequency e),
                   idfCache := map_set term (idfOf (totalDocuments e) df) (idfCache e)\<rparr>)
         else selectTerms maxDf termDocs (vocabIndex, e))"

definition buildVocabulary :: "string list \<Rightarrow> encoder \<Rightarrow> encoder" where
  "buildVocabulary documents e =
     (let e1 = e\<lparr>vocabulary := [], documentFrequency := [], idfCache := [],
                 totalDocuments := length documents\<rparr>
      in if length documents = 0 then e1\<lparr>isInitialized := True\<rparr>
         else let (totalLength, termDocs) = countDocs (config e1) 0 documents (0, []);
                  e2 = e1\<lparr>avgDocumentLength := real totalLength / real (length documents)\<rparr>;
                  maxDf = real_of_int \<lfloor>maxDfRatio (config e2) * real (length documents)\<rfloor>;
                  (vocabIndex, e3) = selectTerms maxDf termDocs (0, e2)
              in e3\<lparr>isInitialized := True\<rparr>)"


text \<open>The term-frequency table of \<open>embed\<close>: only tokens of the vocabulary are counted.\<close>

fun countTerms :: "(string \<times> nat) list \<Rightarrow> string list \<Rightarrow> (string \<times> nat) list \<Rightarrow> (string \<times> nat) list" where
  "countTerms vocab [] termFreq = termFreq"
| "countTerms vocab (token # tokens) termFreq =
     countTerms vocab tokens
       (if map_has vocab token
        then map_set token ((case map_get termFreq token of None \<Rightarrow> 0 | Some n \<Rightarrow> n) + 1) termFreq
        else termFreq)"

definition bm25Score :: "encoder \<Rightarrow> nat \<Rightarrow> string \<Rightarrow> nat \<Rightarrow> real" where
  \<comment> \<open>the score of one entry \<open>(term, tf)\<close> of the table, for a document of \<open>docLength\<close> tokens\<close>
  "bm25Score e docLength term tf =
     (let idf = (case map_get (idfCache e) term of None \<Rightarrow> 0 | Some v \<Rightarrow> v);
          adjustedTf = (if sublinearTf (config e) then 1 + ln (real tf) else real tf);
          numerator = adjustedTf * (k1 (config e) + 1);
          denominator = adjustedTf + k1 (config e) *
            (1 - b (config e) + b (config e) *
               (real docLength / (if avgDocumentLength e = 0 then 1 else avgDocumentLength e)))
      in idf * (numerator / denominator))"

fun scoreTerms :: "encoder \<Rightarrow> nat \<Rightarrow> (string \<times> nat) list \<Rightarrow> sparse_vector \<Rightarrow> sparse_vector" where
  "scoreTerms e docLength [] sv = sv"
| "scoreTerms e docLength ((term, tf) # termFreq) sv =
     (let index = the (map_get (vocabulary e) term);
          score = bm25Score e docLength term tf
      in scoreTerms e docLength termFreq
           (if score > 0 then sv\<lparr>indices := indices sv @ [index], vals := vals sv @ [score]\<rparr>
            else sv))"

text \<open>
  \<open>embed\<close> builds the vocabulary from its own argument when the encoder is not initialized,
  so it returns the encoder together with the vector.
\<close>

definition embed :: "string \<Rightarrow> encoder \<Rightarrow> encoder \<times> sparse_vector" where
  "embed text e0 =
     (let e = (if \<not> isInitialized e0 then buildVocabulary [text] e0 else e0);
          tokens = tokenize (config e) text;
          docLength = length tokens
      in if docLength = 0 then (e, \<lparr>indices = [], vals = []\<rparr>)
         else (e, scoreTerms e docLength (countTerms (vocabulary e) tokens [])
                    \<lparr>indices = [], vals = []\<rparr>))"

definition embedQuery :: "string \<Rightarrow> encoder \<Rightarrow> encoder \<times> sparse_vector" where
  "embedQuery text e = embed text e"

definition exportState :: "encoder \<Rightarrow> encoder_state" where
  "exportState e =
     \<lparr>s_vocabulary = vocabulary e, s_documentFrequency = documentFrequency e,
      s_idfCache = idfCache e, s_totalDocuments = totalDocuments e,
      s_avgDocumentLength = avgDocumentLength e, s_config = Some (config e)\<rparr>"

definition importState :: "encoder_state \<Rightarrow> encoder \<Rightarrow> encoder" where
  "importState state e =
     \<lparr>config = (case s_config state of Some cfg \<Rightarrow> cfg | None \<Rightarrow> config e),
      vocabulary = new_Map (s_vocabulary state),
      documentFrequency = new_Map (s_documentFrequency state),
      totalDocuments = s_totalDocuments state,
      avgDocumentLength = s_avgDocumentLength state,
      idfCache = new_Map (s_idfCache state),
      isInitialized = True\<rparr>"

definition clear :: "encoder \<Rightarrow> encoder" where
  "clear e = e\<lparr>vocabulary := [], documentFrequency := [], idfCache := [],
               totalDocuments := 0, avgDocumentLength := 0, isInitialized := False\<rparr>"

definition updateConfig :: "(sparse_config \<Rightarrow> sparse_config) \<Rightarrow> encoder \<Rightarrow> encoder" where
  \<comment> \<open>the partial configuration is given as the update it makes\<close>
  "updateConfig upd e = e\<lparr>config := upd (config e)\<rparr>"

subsection \<open>The score formula in the words of the specification\<close>

text \<open>
  The specification's per-term score, \<open>idf \<cdot> adjusted_tf \<cdot> (k1 + 1) / denominator\<close> with the
  denominator \<open>adjusted_tf + k1 \<cdot> (1 - b + b \<cdot> doc_len / max(avg_document_length, 1))\<close>, and
  the same formula with the average length replaced by 1 only when it is 0.
\<close>

definition spec_adjusted_tf :: "bool \<Rightarrow> nat \<Rightarrow> real" where
  "spec_adjusted_tf sublinear tf = (if sublinear then 1 + ln (real tf) else real tf)"

definition spec_score :: "real \<Rightarrow> real \<Rightarrow> real \<Rightarrow> real \<Rightarrow> nat \<Rightarrow> real \<Rightarrow> real" where
  "spec_score idf adjusted_tf k b_par doc_len avg =
     idf * adjusted_tf * (k + 1) /
       (adjusted_tf + k * (1 - b_par + b_par * real doc_len / max avg 1))"

definition nonzero_avg_score :: "real \<Rightarrow> real \<Rightarrow> real \<Rightarrow> real \<Rightarrow> nat \<Rightarrow> real \<Rightarrow> real" where
  "nonzero_avg_score idf adjusted_tf k b_par doc_len avg =
     idf * adjusted_tf * (k + 1) /
       (adjusted_tf + k * (1 - b_par + b_par * real doc_len / (if avg = 0 then 1 else avg)))"

definition cachedIdf :: "encoder \<Rightarrow> string \<Rightarrow> real" where
  \<comment> \<open>the cached IDF of a term, 0 for a term without one\<close>
  "cachedIdf e term = (case map_get (idfCache e) term of None \<Rightarrow> 0 | Some v \<Rightarrow> v)"

definition termFrequencies :: "encoder \<Rightarrow> string \<Rightarrow> (string \<times> nat) list" where
  \<comment> \<open>the term frequencies of a text, restricted to the vocabulary\<close>
  "termFrequencies e text = countTerms (vocabulary e) (tokenize (config e) text) []"

definition emitted :: "(string \<Rightarrow> nat \<Rightarrow> real) \<Rightarrow> (string \<times> nat) list \<Rightarrow> real list" where
  \<comment> \<open>the scores of the entries whose score is positive, in the order of the table\<close>
  "emitted sc termFreq =
     map (\<lambda>(term, tf). sc term tf) (filter (\<lambda>(term, tf). sc term tf > 0) termFreq)"

definition specValues :: "encoder \<Rightarrow> string \<Rightarrow> real list" where
  "specValues e text =
     emitted (\<lambda>term tf. spec_score (cachedIdf e term)
                 (spec_adjusted_tf (sublinearTf (config e)) tf) (k1 (config e)) (b (config e))
                 (length (tokenize (config e) text)) (avgDocumentLength e))
       (termFrequencies e text)"

definition nonzeroAvgValues :: "encoder \<Rightarrow> string \<Rightarrow> real list" where
  "nonzeroAvgValues e text =
     emitted (\<lambda>term tf. nonzero_avg_score (cachedIdf e term)
                 (spec_adjusted_tf (sublinearTf (config e)) tf) (k1 (config e)) (b (config e))
                 (length (tokenize (config e) text)) (avgDocumentLength e))
       (termFrequencies e text)"

subsection \<open>Histories of an encoder\<close>

text \<open>
  The states an encoder can reach are the results of running the public operations, in any
  order, on a new encoder. A state container is \<open>denseState\<close> when the vocabulary that
  \<open>importState\<close> reads from it gives its terms pairwise different indices below their number.
\<close>

datatype encoder_op =
    BuildVocabulary "string list"
  | ImportState encoder_state
  | Clear
  | Embed string

fun applyOp :: "encoder_op \<Rightarrow> encoder \<Rightarrow> encoder" where
  "applyOp (BuildVocabulary documents) e = buildVocabulary documents e"
| "applyOp (ImportState state) e = importState state e"
| "applyOp Clear e = clear e"
| "applyOp (Embed text) e = fst (embed text e)"

definition runOps :: "encoder_op list \<Rightarrow> encoder \<Rightarrow> encoder" where
  "runOps ops e = foldl (\<lambda>e' op. applyOp op e') e ops"




definition mapsValid :: "encoder \<Rightarrow> bool" where
  \<comment> \<open>the three tables are maps: no key occurs twice\<close>
  "mapsValid e =
     (distinct (map fst (vocabulary e)) \<and> distinct (map fst (documentFrequency e))
      \<and> distinct (map fst (idfCache e)))"


section \<open>The Qdrant adapter (class \<open>QdrantVectorDatabase\<close>)\<close>

subsection \<open>Documents, points and the backend\<close>

record vector_document =
  doc_id :: string  \<comment> \<open>the field \<open>id\<close>\<close>
  vector :: "real list"
  sparseVector :: "sparse_vector option"
  content :: string
  relativePath :: string
  startLine :: nat
  endLine :: nat
  fileExtension :: string
  metadata :: "(string \<times> string) list"

text \<open>
  The payload stored with a point. A payload read back from the backend may lack any field,
  so every field is optional; \<open>x || d\<close> on such a field is \<open>orElse\<close>.
\<close>

record payload =
  p_id :: "string option"
  p_content :: "string option"
  p_relativePath :: "string option"
  p_startLine :: "nat option"
  p_endLine :: "nat option"
  p_fileExtension :: "string option"
  p_metadata :: "(string \<times> string) list option"

datatype named_vector = DenseVec "real list" | SparseVec sparse_vector

datatype point_vector = Unnamed "real list" | Named "(string \<times> named_vector) list"

record point =
  pt_id :: string
  pt_vector :: point_vector
  pt_payload :: payload

record scored_point =
  sp_id :: string  \<comment> \<open>\<open>String(result.id)\<close>\<close>
  sp_payload :: payload
  sp_score :: real

record condition =
  key :: string
  match_value :: string  \<comment> \<open>\<open>match: { value }\<close>\<close>

datatype qfilter = Should "condition list" | Must "condition list" | MustNot "condition list"

datatype request_data = Text string | Dense "real list" | Sparse sparse_vector

record hybrid_search_request =
  data :: request_data
  anns_field :: "string option"
  limit :: "nat option"

record rerank_params =
  rp_k :: "real option"
  rp_weights :: "real list option"

record rerank_options =
  strategy :: string
  params :: "rerank_params option"

record hybrid_search_options =
  o_limit :: "nat option"
  filterExpr :: "string option"
  rerank :: "rerank_options option"

record search_params =
  q_name :: "string option"  \<comment> \<open>the named vector, \<open>None\<close> for the unnamed one\<close>
  q_vector :: request_data
  q_limit :: nat
  q_filter :: "qfilter option"

datatype error = BackendError string

datatype backend_call =
    GetCollection string
  | Search string search_params
  | Upsert string "point list"
  | Delete string "string list"

datatype console_msg =
    WarnCouldNotParseFilter string
  | WarnTextNotSupported
  | LogSkipEmptySparse
  | LogSparseSearch nat
  | ErrorHybridSearchFailed string
  | LogInserted nat string
  | ErrorInsertFailed string
  | LogInsertedHybrid nat string nat
  | ErrorInsertHybridFailed string
  | LogDeleted nat string
  | ErrorDeleteFailed string

text \<open>
  The Qdrant client is a parameter: what the backend answers to each request (\<open>Inl\<close> when the
  client throws). \<open>getCollection\<close> answers whether the vector configuration of the collection
  names a vector \<open>dense\<close>. The adapter's own state is the cache of hybrid collections; the
  model adds the requests sent to the backend and the console output, in order.
\<close>

record backend =
  getCollection :: "string \<Rightarrow> error + bool"
  search :: "string \<Rightarrow> search_params \<Rightarrow> error + scored_point list"
  upsert :: "string \<Rightarrow> point list \<Rightarrow> error option"
  delete :: "string \<Rightarrow> string list \<Rightarrow> error option"

record qdrant =
  hybridCollections :: "string list"
  trace :: "backend_call list"
  console :: "console_msg list"

definition orElse :: "'a option \<Rightarrow> ('a \<Rightarrow> bool) \<Rightarrow> 'a \<Rightarrow> 'a" where
  \<comment> \<open>\<open>x || d\<close>: \<open>d\<close> when \<open>x\<close> is undefined or falsy\<close>
  "orElse x falsy d = (case x of None \<Rightarrow> d | Some v \<Rightarrow> if falsy v then d else v)"

definition isHybridCollection :: "backend \<Rightarrow> string \<Rightarrow> qdrant \<Rightarrow> bool \<times> qdrant" where
  "isHybridCollection be collectionName db =
     (if collectionName \<in> set (hybridCollections db) then (True, db)
      else let db1 = db\<lparr>trace := trace db @ [GetCollection collectionName]\<rparr>
           in case getCollection be collectionName of
                Inr True \<Rightarrow>
                  (True, db1\<lparr>hybridCollections := set_add collectionName (hybridCollections db1)\<rparr>)
              | Inr False \<Rightarrow> (False, db1)
              | Inl err \<Rightarrow> (False, db1))"

subsection \<open>Point ids\<close>

definition hexDigit :: "nat \<Rightarrow> char" where
  "hexDigit d = ''0123456789abcdef'' ! d"

fun toString16 :: "nat \<Rightarrow> string" where
  \<comment> \<open>\<open>n.toString(16)\<close> for a non-negative integer\<close>
  "toString16 n = (if n < 16 then [hexDigit n] else toString16 (n div 16) @ [hexDigit (n mod 16)])"

definition padStart :: "nat \<Rightarrow> char \<Rightarrow> string \<Rightarrow> string" where
  "padStart n c s = replicate (n - length s) c @ s"

definition sliceLast :: "nat \<Rightarrow> string \<Rightarrow> string" where
  \<comment> \<open>\<open>s.slice(-n)\<close>\<close>
  "sliceLast n s = drop (length s - n) s"

definition mathAbs :: "int \<Rightarrow> nat" where
  "mathAbs i = nat \<bar>i\<bar>"

text \<open>
  Both hash loops compute, in 32-bit two's complement, \<open>(hash << 5) - hash + char\<close>: the
  intermediate sum is an exact double and \<open>hash & hash\<close> and \<open>| 0\<close> reduce it to 32 bits.
\<close>

definition hashStep :: "32 word \<Rightarrow> char \<Rightarrow> 32 word" where
  "hashStep hash c = push_bit 5 hash - hash + of_nat (charCode c)"

text \<open>\<open>now\<close> is the value that \<open>Date.now()\<close> returns during the call, in milliseconds.\<close>

definition stringToUuid :: "nat \<Rightarrow> string \<Rightarrow> string" where
  "stringToUuid now str =
     (let hash = foldl hashStep 0 str;
          positiveHash = mathAbs (sint hash);
          hex = padStart 8 (CHR ''0'') (toString16 positiveHash);
          hex2 = padStart 4 (CHR ''0'') (toString16 (length str));
          hex3 = sliceLast 4 (toString16 now);
          fullHash = foldl hashStep 0 str;
          hex4 = take 4 (padStart 4 (CHR ''0'') (toString16 (mathAbs (sint fullHash))));
          hex5 = take 12 (padStart 12 (CHR ''0'')
                   (toString16 (mathAbs (sint (signed_drop_bit 16 fullHash)))))
      in take 8 hex @ ''-'' @ hex2 @ ''-4'' @ drop 1 hex3 @ ''-'' @ hex4 @ ''-'' @ hex5)"

subsection \<open>Insertion and deletion\<close>

definition payloadOf :: "vector_document \<Rightarrow> payload" where
  "payloadOf doc =
     \<lparr>p_id = Some (doc_id doc), p_content = Some (content doc),
      p_relativePath = Some (relativePath doc), p_startLine = Some (startLine doc),
      p_endLine = Some (endLine doc), p_fileExtension = Some (fileExtension doc),
      p_metadata = Some (metadata doc)\<rparr>"

definition plainPoint :: "nat \<Rightarrow> vector_document \<Rightarrow> point" where
  \<comment> \<open>the callback of \<open>documents.map\<close> in \<open>insert\<close>\<close>
  "plainPoint now doc =
     \<lparr>pt_id = stringToUuid now (doc_id doc), pt_vector = Unnamed (vector doc),
      pt_payload = payloadOf doc\<rparr>"

definition hasSparse :: "vector_document \<Rightarrow> bool" where
  \<comment> \<open>\<open>doc.sparseVector && doc.sparseVector.indices.length > 0\<close>\<close>
  "hasSparse doc = (case sparseVector doc of None \<Rightarrow> False | Some sv \<Rightarrow> length (indices sv) > 0)"

definition hybridPoint :: "nat \<Rightarrow> vector_document \<Rightarrow> point" where
  \<comment> \<open>the callback of \<open>documents.map\<close> in \<open>insertHybrid\<close>\<close>
  "hybridPoint now doc =
     (let vector0 = [(''dense'', DenseVec (vector doc))];
          vector1 = (if hasSparse doc
                     then map_set ''sparse''
                            (SparseVec \<lparr>indices = indices (the (sparseVector doc)),
                                        vals = vals (the (sparseVector doc))\<rparr>) vector0
                     else vector0)
      in \<lparr>pt_id = stringToUuid now (doc_id doc), pt_vector = Named vector1,
          pt_payload = payloadOf doc\<rparr>)"

text \<open>
  \<open>Date.now()\<close> is read once for every converted id: \<open>clock i\<close> is its value during the
  conversion of the \<open>i\<close>-th element of the array.
\<close>

definition mapClock :: "(nat \<Rightarrow> 'a \<Rightarrow> 'b) \<Rightarrow> (nat \<Rightarrow> nat) \<Rightarrow> 'a list \<Rightarrow> 'b list" where
  "mapClock f clock xs = map (\<lambda>(i, x). f (clock i) x) (enumerate 0 xs)"

text \<open>The batch loop: slices of \<open>batchSize\<close> points are upserted until one fails.\<close>

function upsertBatches :: "backend \<Rightarrow> string \<Rightarrow> nat \<Rightarrow> point list \<Rightarrow> nat \<Rightarrow> qdrant
    \<Rightarrow> qdrant \<times> error option" where
  "upsertBatches be collectionName batchSize points i db =
     (if i < length points \<and> 0 < batchSize
      then let batch = take batchSize (drop i points);
               db1 = db\<lparr>trace := trace db @ [Upsert collectionName batch]\<rparr>
           in case upsert be collectionName batch of
                Some err \<Rightarrow> (db1, Some err)
              | None \<Rightarrow> upsertBatches be collectionName batchSize points (i + batchSize) db1
      else (db, None))"
  by pat_completeness auto
termination
  by (relation "measure (\<lambda>(be, collectionName, batchSize, points, i, db). length points - i)") auto

declare upsertBatches.simps [simp del]

definition insertDocuments :: "backend \<Rightarrow> (nat \<Rightarrow> nat) \<Rightarrow> string \<Rightarrow> vector_document list \<Rightarrow> qdrant
    \<Rightarrow> qdrant \<times> error option" where
  "insertDocuments be clock collectionName documents db =
     (let points = mapClock plainPoint clock documents
      in case upsertBatches be collectionName 100 points 0 db of
           (db1, None) \<Rightarrow>
             (db1\<lparr>console := console db1 @ [LogInserted (length documents) collectionName]\<rparr>, None)
         | (db1, Some err) \<Rightarrow>
             (db1\<lparr>console := console db1 @ [ErrorInsertFailed collectionName]\<rparr>, Some err))"

definition insertHybrid :: "backend \<Rightarrow> (nat \<Rightarrow> nat) \<Rightarrow> string \<Rightarrow> vector_document list \<Rightarrow> qdrant
    \<Rightarrow> qdrant \<times> error option" where
  "insertHybrid be clock collectionName documents db =
     (let points = mapClock hybridPoint clock documents
      in case upsertBatches be collectionName 100 points 0 db of
           (db1, None) \<Rightarrow>
             (let sparseCount = length (filter hasSparse documents)
              in (db1\<lparr>console := console db1 @
                        [LogInsertedHybrid (length documents) collectionName sparseCount]\<rparr>, None))
         | (db1, Some err) \<Rightarrow>
             (db1\<lparr>console := console db1 @ [ErrorInsertHybridFailed collectionName]\<rparr>, Some err))"

definition deletePoints :: "backend \<Rightarrow> (nat \<Rightarrow> nat) \<Rightarrow> string \<Rightarrow> string list \<Rightarrow> qdrant
    \<Rightarrow> qdrant \<times> error option" where
  \<comment> \<open>the method \<open>delete\<close>\<close>
  "deletePoints be clock collectionName ids db =
     (let pointIds = mapClock stringToUuid clock ids;
          db1 = db\<lparr>trace := trace db @ [Delete collectionName pointIds]\<rparr>
      in case delete be collectionName pointIds of
           None \<Rightarrow> (db1\<lparr>console := console db1 @ [LogDeleted (length ids) collectionName]\<rparr>, None)
         | Some err \<Rightarrow>
             (db1\<lparr>console := console db1 @ [ErrorDeleteFailed collectionName]\<rparr>, Some err))"

subsection \<open>Filter expressions\<close>

text \<open>
  \<open>expr.match(re)\<close> without the \<open>g\<close> flag returns the leftmost match: the pattern is tried at
  every start position from left to right. \<open>matchAt\<close> tries it at the start of a suffix.
\<close>

fun regexSearch :: "(string \<Rightarrow> 'a option) \<Rightarrow> string \<Rightarrow> 'a option" where
  "regexSearch matchAt [] = matchAt []"
| "regexSearch matchAt (c # cs) =
     (case matchAt (c # cs) of Some groups \<Rightarrow> Some groups | None \<Rightarrow> regexSearch matchAt cs)"

text \<open>
  The pattern \<open>/(\w+)\s+in\s+\[([^\]]+)\]/i\<close> at one position. Each greedy run is followed by a
  character outside its class, so backtracking into a run never helps: the field is the whole
  run of word characters, both runs of white space are taken whole, and the second group is
  the non-empty run up to the first closing bracket, which must be there. The flag \<open>i\<close> lets
  \<open>in\<close> match in either case. The result is the pair of groups 1 and 2.
\<close>

definition inMatchAt :: "string \<Rightarrow> (string \<times> string) option" where
  "inMatchAt s =
     (let field = takeWhile isWordChar s;
          s1 = dropWhile isWordChar s;
          s2 = dropWhile isSpace s1
      in if field = [] \<or> takeWhile isSpace s1 = [] then None
         else case s2 of
                i # n # s3 \<Rightarrow>
                  if (i = CHR ''i'' \<or> i = CHR ''I'') \<and> (n = CHR ''n'' \<or> n = CHR ''N'')
                     \<and> takeWhile isSpace s3 \<noteq> []
                  then (case dropWhile isSpace s3 of
                          c # s4 \<Rightarrow>
                            (let valuesStr = takeWhile (\<lambda>c. c \<noteq> CHR '']'') s4
                             in if c = CHR ''['' \<and> valuesStr \<noteq> []
                                   \<and> dropWhile (\<lambda>c. c \<noteq> CHR '']'') s4 \<noteq> []
                                then Some (field, valuesStr) else None)
                        | [] \<Rightarrow> None)
                  else None
              | _ \<Rightarrow> None)"

text \<open>
  The patterns \<open>/(\w+)\s*==\s*["']?([^"']+)["']?/\<close> and \<open>/(\w+)\s*!=\s*["']?([^"']+)["']?/\<close> at
  one position, \<open>op\<close> being the operator. The field is the whole run of word characters and
  the white space before the operator is taken whole. After the operator the engine first
  takes all the white space and an opening quote, if there is one; the value is then the run
  of characters that are not quotes. When that run is empty (the text ends there, or a second
  quote follows) the only alternative that can succeed gives one white-space character back:
  the value is then the last white-space character before that point.
\<close>

definition cmpMatchAt :: "string \<Rightarrow> string \<Rightarrow> (string \<times> string) option" where
  "cmpMatchAt op s =
     (let field = takeWhile isWordChar s;
          s1 = dropWhile isSpace (dropWhile isWordChar s)
      in if field = [] \<or> take 2 s1 \<noteq> op then None
         else let s2 = drop 2 s1;
                  ws = takeWhile isSpace s2;
                  s3 = dropWhile isSpace s2;
                  s4 = (case s3 of [] \<Rightarrow> [] | c # cs \<Rightarrow> if isQuote c then cs else c # cs);
                  val = takeWhile (\<lambda>c. \<not> isQuote c) s4
              in if val \<noteq> [] then Some (field, val)
                 else if ws \<noteq> [] then Some (field, [last ws])
                 else None)"

definition parseFilterExpression :: "string \<Rightarrow> qfilter option \<times> console_msg list" where
  \<comment> \<open>the filter (\<open>None\<close> for \<open>undefined\<close>) and what the call writes to the console\<close>
  "parseFilterExpression expr =
     (if expr = [] \<or> trim expr = [] then (None, [])
      else case regexSearch inMatchAt expr of
             Some (field, valuesStr) \<Rightarrow>
               (let vs = map (\<lambda>v. filter (\<lambda>c. \<not> isQuote c) (trim v)) (splitChar (CHR '','') valuesStr)
                in (Some (Should (map (\<lambda>v. \<lparr>key = field, match_value = v\<rparr>) vs)), []))
           | None \<Rightarrow>
               (case regexSearch (cmpMatchAt ''=='') expr of
                  Some (field, v) \<Rightarrow> (Some (Must [\<lparr>key = field, match_value = v\<rparr>]), [])
                | None \<Rightarrow>
                    (case regexSearch (cmpMatchAt ''!='') expr of
                       Some (field, v) \<Rightarrow> (Some (MustNot [\<lparr>key = field, match_value = v\<rparr>]), [])
                     | None \<Rightarrow> (None, [WarnCouldNotParseFilter expr]))))"

subsection \<open>Rank fusion\<close>

record result_entry =
  document :: vector_document
  scores :: "real list"

record hybrid_search_result =
  r_document :: vector_document
  r_score :: real

definition rrfScore :: "real \<Rightarrow> real list \<Rightarrow> real" where
  \<comment> \<open>\<open>scores.reduce((sum, _, idx) => sum + 1 / (k + idx + 1), 0)\<close>\<close>
  "rrfScore k scs =
     foldl (\<lambda>sum (x, idx). sum + 1 / (k + real idx + 1)) 0 (zip scs [0..<length scs])"

definition weightedScore :: "real list \<Rightarrow> real list \<Rightarrow> real" where
  "weightedScore weights scs =
     foldl (\<lambda>sum i. sum + scs ! i *
              (if i < length weights \<and> weights ! i \<noteq> 0 then weights ! i
               else 1 / real (length scs)))
       0 [0..<length scs]"

definition avgScore :: "real list \<Rightarrow> real" where
  "avgScore scs = foldl (\<lambda>a b. a + b) 0 scs / real (length scs)"

definition sortByScore :: "hybrid_search_result list \<Rightarrow> hybrid_search_result list" where
  \<comment> \<open>\<open>sort((a, b) => b.score - a.score)\<close>: descending, stable\<close>
  "sortByScore rs = sort_key (\<lambda>r. - r_score r) rs"

definition applyReranking :: "(string \<times> result_entry) list \<Rightarrow> rerank_options option
    \<Rightarrow> hybrid_search_result list" where
  "applyReranking results rr =
     (let strat = (case rr of None \<Rightarrow> ''rrf'' | Some r \<Rightarrow> if strategy r = [] then ''rrf'' else strategy r);
          ps = (case rr of None \<Rightarrow> None | Some r \<Rightarrow> params r)
      in if strat = ''rrf''
         then let k = orElse (case ps of None \<Rightarrow> None | Some p \<Rightarrow> rp_k p) (\<lambda>k. k = 0) 60
              in sortByScore
                   (map (\<lambda>(docId, entry).
                           \<lparr>r_document = document entry, r_score = rrfScore k (scores entry)\<rparr>) results)
         else if strat = ''weighted''
         then let weights = (case (case ps of None \<Rightarrow> None | Some p \<Rightarrow> rp_weights p) of
                               None \<Rightarrow> [0.5, 0.5] | Some w \<Rightarrow> w)
              in sortByScore
                   (map (\<lambda>(docId, entry).
                           \<lparr>r_document = document entry,
                            r_score = weightedScore weights (scores entry)\<rparr>) results)
         else sortByScore
                (map (\<lambda>(docId, entry).
                        \<lparr>r_document = document entry, r_score = avgScore (scores entry)\<rparr>) results))"

subsection \<open>Hybrid search\<close>

definition stringIncludes :: "string \<Rightarrow> string \<Rightarrow> bool" where
  \<comment> \<open>\<open>s.includes(sub)\<close>\<close>
  "stringIncludes s sub = list_ex (\<lambda>i. take (length sub) (drop i s) = sub) [0..<Suc (length s)]"

definition isSparseVector :: "request_data \<Rightarrow> bool" where
  "isSparseVector d = (case d of Sparse sv \<Rightarrow> True | _ \<Rightarrow> False)"

definition isSparseField :: "hybrid_search_request \<Rightarrow> bool" where
  "isSparseField request =
     (case anns_field request of
        None \<Rightarrow> False
      | Some f \<Rightarrow> f = ''sparse_vector'' \<or> f = ''sparse'' \<or> stringIncludes f ''sparse'')"

text \<open>The loop over the results of one channel.\<close>

fun collectResults :: "request_data \<Rightarrow> scored_point list \<Rightarrow> (string \<times> result_entry) list
    \<Rightarrow> (string \<times> result_entry) list" where
  "collectResults d [] allResults = allResults"
| "collectResults d (result # searchResult) allResults =
     (let payload = sp_payload result;
          docId = orElse (p_id payload) (\<lambda>s. s = []) (sp_id result);
          allResults1 =
            (if \<not> map_has allResults docId
             then map_set docId
                    \<lparr>document =
                       \<lparr>doc_id = docId,
                        vector = (case d of Dense v \<Rightarrow> v | _ \<Rightarrow> []),
                        sparseVector = None,
                        content = orElse (p_content payload) (\<lambda>s. s = []) [],
                        relativePath = orElse (p_relativePath payload) (\<lambda>s. s = []) [],
                        startLine = orElse (p_startLine payload) (\<lambda>n. n = 0) 0,
                        endLine = orElse (p_endLine payload) (\<lambda>n. n = 0) 0,
                        fileExtension = orElse (p_fileExtension payload) (\<lambda>s. s = []) [],
                        metadata = orElse (p_metadata payload) (\<lambda>m. False) []\<rparr>,
                     scores = []\<rparr> allResults
             else allResults);
          entry = the (map_get allResults1 docId)
      in collectResults d searchResult
           (map_set docId (entry\<lparr>scores := scores entry @ [sp_score result]\<rparr>) allResults1))"

text \<open>
  The body of the loop over the requests. The result is the adapter after the request and
  either the error thrown by the client or the accumulated results.
\<close>

definition searchRequest :: "backend \<Rightarrow> string \<Rightarrow> nat \<Rightarrow> hybrid_search_options option
    \<Rightarrow> hybrid_search_request \<Rightarrow> qdrant \<Rightarrow> (string \<times> result_entry) list
    \<Rightarrow> qdrant \<times> (error + (string \<times> result_entry) list)" where
  "searchRequest be collectionName callLimit options request db allResults =
     (case data request of
        Text t \<Rightarrow> (db\<lparr>console := console db @ [WarnTextNotSupported]\<rparr>, Inr allResults)
      | _ \<Rightarrow>
        (let isSparseSearch = isSparseVector (data request);
             sparseField = isSparseField request;
             (isHybrid, db1) = isHybridCollection be collectionName db;
             (filt, msgs) =
               (case (case options of None \<Rightarrow> None | Some opts \<Rightarrow> filterExpr opts) of
                  None \<Rightarrow> (None, [])
                | Some expr \<Rightarrow> if expr = [] then (None, []) else parseFilterExpression expr);
             db2 = db1\<lparr>console := console db1 @ msgs\<rparr>
         in if isSparseSearch \<or> sparseField
            then (case data request of
                    Sparse sparseData \<Rightarrow>
                      if length (indices sparseData) = 0
                      then (db2\<lparr>console := console db2 @ [LogSkipEmptySparse]\<rparr>, Inr allResults)
                      else let db3 = db2\<lparr>console := console db2 @
                                         [LogSparseSearch (length (indices sparseData))]\<rparr>;
                               q = \<lparr>q_name = Some ''sparse'', q_vector = data request,
                                    q_limit = orElse (limit request) (\<lambda>n. n = 0) callLimit,
                                    q_filter = filt\<rparr>;
                               db4 = db3\<lparr>trace := trace db3 @ [Search collectionName q]\<rparr>
                           in (case search be collectionName q of
                                 Inl err \<Rightarrow> (db4, Inl err)
                               | Inr searchResult \<Rightarrow>
                                   (db4, Inr (collectResults (data request) searchResult allResults)))
                  | _ \<Rightarrow> (db2\<lparr>console := console db2 @ [LogSkipEmptySparse]\<rparr>, Inr allResults))
            else let vectorName = (if isHybrid then Some ''dense'' else None);
                     q = \<lparr>q_name = vectorName, q_vector = data request,
                          q_limit = orElse (limit request) (\<lambda>n. n = 0) callLimit,
                          q_filter = filt\<rparr>;
                     db3 = db2\<lparr>trace := trace db2 @ [Search collectionName q]\<rparr>
                 in (case search be collectionName q of
                       Inl err \<Rightarrow> (db3, Inl err)
                     | Inr searchResult \<Rightarrow>
                         (db3, Inr (collectResults (data request) searchResult allResults)))))"

fun searchRequests :: "backend \<Rightarrow> string \<Rightarrow> nat \<Rightarrow> hybrid_search_options option
    \<Rightarrow> hybrid_search_request list \<Rightarrow> qdrant \<Rightarrow> (string \<times> result_entry) list
    \<Rightarrow> qdrant \<times> (error + (string \<times> result_entry) list)" where
  "searchRequests be collectionName callLimit options [] db allResults = (db, Inr allResults)"
| "searchRequests be collectionName callLimit options (request # requests) db allResults =
     (case searchRequest be collectionName callLimit options request db allResults of
        (db1, Inl err) \<Rightarrow> (db1, Inl err)
      | (db1, Inr allResults1) \<Rightarrow>
          searchRequests be collectionName callLimit options requests db1 allResults1)"

definition hybridSearch :: "backend \<Rightarrow> string \<Rightarrow> hybrid_search_request list
    \<Rightarrow> hybrid_search_options option \<Rightarrow> qdrant
    \<Rightarrow> qdrant \<times> (error + hybrid_search_result list)" where
  "hybridSearch be collectionName requests options db =
     (let callLimit = orElse (case options of None \<Rightarrow> None | Some opts \<Rightarrow> o_limit opts) (\<lambda>n. n = 0) 10
      in case searchRequests be collectionName callLimit options requests db [] of
           (db1, Inl err) \<Rightarrow>
             (db1\<lparr>console := console db1 @ [ErrorHybridSearchFailed collectionName]\<rparr>, Inl err)
         | (db1, Inr allResults) \<Rightarrow>
             (db1, Inr (take callLimit (applyReranking allResults
                                    (case options of None \<Rightarrow> None | Some opts \<Rightarrow> rerank opts)))))"

subsection \<open>Notions used to state the properties of the adapter\<close>

definition emptyDb :: qdrant where
  \<comment> \<open>the adapter after its constructor\<close>
  "emptyDb = \<lparr>hybridCollections = [], trace = [], console = []\<rparr>"

definition upsertedPoints :: "backend_call list \<Rightarrow> point list" where
  \<comment> \<open>the points of all upsert requests, in order\<close>
  "upsertedPoints calls = concat (map (\<lambda>call. case call of Upsert c ps \<Rightarrow> ps | _ \<Rightarrow> []) calls)"

definition searchCalls :: "backend_call list \<Rightarrow> backend_call list" where
  \<comment> \<open>the search requests among the requests sent to the backend\<close>
  "searchCalls calls = filter (\<lambda>call. case call of Search c q \<Rightarrow> True | _ \<Rightarrow> False) calls"

definition emptySparse :: "hybrid_search_request \<Rightarrow> bool" where
  \<comment> \<open>the data of the request is a sparse vector with no indices\<close>
  "emptySparse request = (case data request of Sparse sv \<Rightarrow> indices sv = [] | _ \<Rightarrow> False)"

text \<open>
  Reciprocal rank fusion in the words of the specification: the sum over the channels of
  \<open>1 / (k + rank + 1)\<close>, \<open>rank\<close> being the 0-based position of the document in the result list
  of the channel, and 0 for a channel that does not return the document.
\<close>

definition rankIn :: "string \<Rightarrow> scored_point list \<Rightarrow> nat option" where
  "rankIn docId channel =
     (let ids = map (\<lambda>r. orElse (p_id (sp_payload r)) (\<lambda>s. s = []) (sp_id r)) channel
      in if docId \<in> set ids then Some (length (takeWhile (\<lambda>i. i \<noteq> docId) ids)) else None)"

definition spec_rrf :: "real \<Rightarrow> string \<Rightarrow> scored_point list list \<Rightarrow> real" where
  "spec_rrf k docId channels =
     sum_list (map (\<lambda>channel. case rankIn docId channel of
                                 None \<Rightarrow> 0 | Some rank \<Rightarrow> 1 / (k + real rank + 1)) channels)"

text \<open>
  A backend with one hybrid collection: the dense channel returns the document \<open>A\<close>, the
  sparse channel returns \<open>X\<close>, \<open>Y\<close> and \<open>A\<close>, in this order.
\<close>

definition hit :: "string \<Rightarrow> real \<Rightarrow> scored_point" where
  "hit i s =
     \<lparr>sp_id = ''0'',
      sp_payload = \<lparr>p_id = Some i, p_content = None, p_relativePath = None, p_startLine = None,
                    p_endLine = None, p_fileExtension = None, p_metadata = None\<rparr>,
      sp_score = s\<rparr>"

definition denseChannel :: "scored_point list" where
  "denseChannel = [hit ''A'' 0.9]"

definition sparseChannel :: "scored_point list" where
  "sparseChannel = [hit ''X'' 7, hit ''Y'' 5, hit ''A'' 3]"

definition twoChannels :: backend where
  "twoChannels =
     \<lparr>getCollection = (\<lambda>c. Inr True),
      search = (\<lambda>c q. if q_name q = Some ''sparse'' then Inr sparseChannel else Inr denseChannel),
      upsert = (\<lambda>c ps. None),
      delete = (\<lambda>c ids. None)\<rparr>"

definition twoRequests :: "hybrid_search_request list" where
  "twoRequests =
     [\<lparr>data = Dense [0.1, 0.2], anns_field = Some ''dense'', limit = Some 10\<rparr>,
      \<lparr>data = Sparse \<lparr>indices = [4], vals = [1.5]\<rparr>, anns_field = Some ''sparse'',
       limit = Some 10\<rparr>]"

definition sampleDoc :: "sparse_vector option \<Rightarrow> vector_document" where
  "sampleDoc sv =
     \<lparr>doc_id = ''doc1'', vector = [0.1, 0.2], sparseVector = sv, content = ''x = 1'',
      relativePath = ''a.ts'', startLine = 1, endLine = 1, fileExtension = ''.ts'',
      metadata = []\<rparr>"

text \<open>The document that \<open>hybridSearch\<close> builds from a payload that holds only the id.\<close>

definition resultDoc :: "string \<Rightarrow> real list \<Rightarrow> vector_document" where
  "resultDoc i v = \<lparr>doc_id = i, vector = v, sparseVector = None, content = [], relativePath = [],
     startLine = 0, endLine = 0, fileExtension = [], metadata = []\<rparr>"

text \<open>The shapes of filter expressions.\<close>

definition quoted :: "string \<Rightarrow> string" where
  \<comment> \<open>a value between double quotes\<close>
  "quoted v = CHR 0x22 # v @ [CHR 0x22]"


definition plainChar :: "char \<Rightarrow> bool" where
  \<comment> \<open>not a quote, a comma, a bracket or an equals sign\<close>
  "plainChar c = (\<not> isQuote c \<and> c \<noteq> CHR '','' \<and> c \<noteq> CHR ''['' \<and> c \<noteq> CHR '']'' \<and> c \<noteq> CHR ''='')"









text \<open>
  The invariants behind the properties of an emitted vector: after \<open>n\<close> accepted terms the
  vocabulary numbers its terms \<open>0, \<dots>, n - 1\<close> in order and no table has a key twice.
\<close>

definition tablesOk :: "nat \<Rightarrow> encoder \<Rightarrow> bool" where
  "tablesOk n e = (map snd (vocabulary e) = [0..<n] \<and> distinct (map fst (vocabulary e))
     \<and> distinct (map fst (documentFrequency e)) \<and> distinct (map fst (idfCache e)))"



section \<open>Verified properties\<close>

subsection \<open>Evaluation of the tokenizer\<close>

lemmas tokenizer_eval =
  tokenize_def tokenizeCode_def splitRegex_def segmentTokens_def isCodeDelimiter_def isSpace_def
  charCode_def isLowerAZ_def isUpperAZ_def isUnderscoreOrDash_def toLowerCase_def toLowerChar_def
  isStopToken_def Let_def char_of_def bit_Suc_0_iff

subsection \<open>Tokenizer scenarios\<close>

text \<open>
  Claim C6. In code mode the text \<open>calculateTotalPrice(items)\<close> is tokenized to
  \<open>calculate, total, price, items\<close> and the text \<open>XMLHttpRequest is the API\<close> to
  \<open>xml, http, request, api\<close>: the segments \<open>is\<close> and \<open>the\<close> are on the stop list and give no
  token, and no token of one character is emitted.
\<close>

theorem tokenizeCode_scenarios:
  "tokenizeCode ''calculateTotalPrice(items)'' = [''calculate'', ''total'', ''price'', ''items'']
   \<and> tokenizeCode ''XMLHttpRequest is the API'' = [''xml'', ''http'', ''request'', ''api'']
   \<and> isStopToken ''is'' \<and> isStopToken ''the''
   \<and> segmentTokens ''is'' = [] \<and> segmentTokens ''the'' = []"
  by (simp add: tokenizer_eval)

section \<open>Properties of the encoder\<close>

subsection \<open>Maps as lists\<close>

lemma map_set_fresh: "k \<notin> fst ` set m \<Longrightarrow> map_set k v m = m @ [(k, v)]"
  by (induction m) auto

lemma map_set_map_fst:
  "map fst (map_set k v m) = (if k \<in> fst ` set m then map fst m else map fst m @ [k])"
  by (induction m) (auto simp: image_iff)

lemma map_set_distinct: "distinct (map fst m) \<Longrightarrow> distinct (map fst (map_set k v m))"
  by (simp add: map_set_map_fst)



lemma foldl_map_set_distinct:
  "distinct (map fst acc) \<Longrightarrow> distinct (map fst (foldl (\<lambda>m (k, v). map_set k v m) acc xs))"
  by (induction xs arbitrary: acc) (auto simp: map_set_distinct)

lemma new_Map_distinct: "distinct (map fst (new_Map xs))"
  unfolding new_Map_def by (rule foldl_map_set_distinct) simp

subsection \<open>embed\<close>

lemma scoreTerms_eq:
  "scoreTerms e n termFreq sv =
     \<lparr>indices = indices sv @ map (\<lambda>(term, tf). the (map_get (vocabulary e) term))
                   (filter (\<lambda>(term, tf). bm25Score e n term tf > 0) termFreq),
      vals = vals sv @ map (\<lambda>(term, tf). bm25Score e n term tf)
                   (filter (\<lambda>(term, tf). bm25Score e n term tf > 0) termFreq)\<rparr>"
  by (induction termFreq arbitrary: sv) (auto simp: Let_def)

lemma countTerms_nil_tokens: "countTerms vocab [] acc = acc"
  by simp

lemma embed_vector:
  "snd (embed text e0) =
     (let e = fst (embed text e0); n = length (tokenize (config e) text);
          termFreq = filter (\<lambda>(term, tf). bm25Score e n term tf > 0) (termFrequencies e text)
      in \<lparr>indices = map (\<lambda>(term, tf). the (map_get (vocabulary e) term)) termFreq,
          vals = map (\<lambda>(term, tf). bm25Score e n term tf) termFreq\<rparr>)"
  by (simp add: embed_def Let_def scoreTerms_eq termFrequencies_def)

lemma embed_state:
  "fst (embed text e0) = (if isInitialized e0 then e0 else buildVocabulary [text] e0)"
  by (simp add: embed_def Let_def)

lemma bm25Score_formula:
  "bm25Score e n term tf =
     nonzero_avg_score (cachedIdf e term) (spec_adjusted_tf (sublinearTf (config e)) tf)
       (k1 (config e)) (b (config e)) n (avgDocumentLength e)"
  by (simp add: bm25Score_def nonzero_avg_score_def cachedIdf_def spec_adjusted_tf_def Let_def)

lemma spec_score_agrees:
  "avg = 0 \<or> 1 \<le> avg \<Longrightarrow> spec_score i a k bb n avg = nonzero_avg_score i a k bb n avg"
  by (auto simp: spec_score_def nonzero_avg_score_def max_def)

text \<open>
  Claim C3, as amended. Every score that \<open>embed\<close> emits is
  \<open>idf \<cdot> adjusted_tf \<cdot> (k1 + 1) / (adjusted_tf + k1 \<cdot> (1 - b + b \<cdot> doc_len / d))\<close>, where
  \<open>adjusted_tf\<close> is \<open>1 + ln tf\<close> under \<open>sublinear_tf\<close> and \<open>tf\<close> otherwise, and \<open>d\<close> is the
  average document length, replaced by 1 only when it is 0; this is also the formula with
  \<open>max(avg_document_length, 1)\<close> whenever the average length is 0 or at least 1. The encoder
  meant is the one \<open>embed\<close> leaves behind, which is the given one when it was initialized.
\<close>

theorem embed_scores:
  "vals (snd (embed text e0)) = nonzeroAvgValues (fst (embed text e0)) text
   \<and> (avgDocumentLength (fst (embed text e0)) = 0 \<or> 1 \<le> avgDocumentLength (fst (embed text e0))
       \<longrightarrow> vals (snd (embed text e0)) = specValues (fst (embed text e0)) text)"
proof -
  have a: "vals (snd (embed text e0)) = nonzeroAvgValues (fst (embed text e0)) text"
    by (simp add: embed_vector Let_def nonzeroAvgValues_def emitted_def bm25Score_formula)
  have "specValues e text = nonzeroAvgValues e text"
    if "avgDocumentLength e = 0 \<or> 1 \<le> avgDocumentLength e" for e
    by (simp add: specValues_def nonzeroAvgValues_def spec_score_agrees [OF that])
  with a show ?thesis by simp
qed

subsection \<open>Vocabulary invariant\<close>

lemma addTerms_distinct:
  "distinct (map fst termDocs) \<Longrightarrow> distinct (map fst (addTerms docIndex uniqueTerms termDocs))"
  by (induction uniqueTerms arbitrary: termDocs) (simp_all add: Let_def map_set_distinct)

lemma countDocs_distinct:
  "distinct (map fst (snd acc)) \<Longrightarrow> distinct (map fst (snd (countDocs cfg docIndex documents acc)))"
proof (induction documents arbitrary: docIndex acc)
  case Nil
  then show ?case by simp
next
  case (Cons doc documents)
  obtain totalLength termDocs where acc: "acc = (totalLength, termDocs)" by (cases acc)
  with Cons.prems have "distinct (map fst termDocs)" by simp
  then have "distinct (map fst (addTerms docIndex (new_Set (tokenize cfg doc)) termDocs))"
    by (rule addTerms_distinct)
  then show ?case using Cons.IH by (simp add: acc Let_def)
qed

lemma selectTerms_tablesOk:
  "distinct (map fst termDocs) \<Longrightarrow> fst ` set termDocs \<inter> fst ` set (vocabulary e) = {}
   \<Longrightarrow> tablesOk n e
   \<Longrightarrow> tablesOk (fst (selectTerms maxDf termDocs (n, e))) (snd (selectTerms maxDf termDocs (n, e)))"
proof (induction termDocs arbitrary: n e)
  case Nil
  then show ?case by simp
next
  case (Cons td termDocs)
  obtain "term" docs where td: "td = (term, docs)" by (cases td)
  from Cons.prems td have fresh: "term \<notin> fst ` set (vocabulary e)"
    and dist: "distinct (map fst termDocs)"
    and notin: "term \<notin> fst ` set termDocs"
    and disj: "fst ` set termDocs \<inter> fst ` set (vocabulary e) = {}"
    by auto
  let ?e = "e\<lparr>vocabulary := map_set term n (vocabulary e),
              documentFrequency := map_set term (length docs) (documentFrequency e),
              idfCache := map_set term (idfOf (totalDocuments e) (length docs)) (idfCache e)\<rparr>"
  have ok: "tablesOk (Suc n) ?e"
    using Cons.prems(3) fresh
    by (simp add: tablesOk_def map_set_fresh map_set_distinct)
  have "fst ` set (vocabulary ?e) = insert term (fst ` set (vocabulary e))"
    using fresh by (simp add: map_set_fresh)
  with disj notin have disj': "fst ` set termDocs \<inter> fst ` set (vocabulary ?e) = {}" by auto
  show ?case
    using Cons.IH [OF dist disj' ok] Cons.IH [OF dist disj Cons.prems(3)]
    by (simp add: td Let_def)
qed

lemma buildVocabulary_tablesOk:
  "tablesOk (length (vocabulary (buildVocabulary documents e))) (buildVocabulary documents e)"
proof (cases "documents = []")
  case True
  then show ?thesis by (simp add: buildVocabulary_def tablesOk_def)
next
  case False
  let ?e1 = "e\<lparr>vocabulary := [], documentFrequency := [], idfCache := [],
                totalDocuments := length documents\<rparr>"
  obtain totalLength termDocs where cd: "countDocs (config ?e1) 0 documents (0, []) = (totalLength, termDocs)"
    by (cases "countDocs (config ?e1) 0 documents (0, [])")
  have dist: "distinct (map fst termDocs)"
    using countDocs_distinct [of "(0, [])" "config ?e1" 0 documents] cd by simp
  let ?e2 = "?e1\<lparr>avgDocumentLength := real totalLength / real (length documents)\<rparr>"
  let ?maxDf = "real_of_int \<lfloor>maxDfRatio (config ?e2) * real (length documents)\<rfloor>"
  let ?r = "selectTerms ?maxDf termDocs (0, ?e2)"
  have ok: "tablesOk (fst ?r) (snd ?r)"
    by (rule selectTerms_tablesOk) (simp_all add: dist tablesOk_def)
  have b: "buildVocabulary documents e = (snd ?r)\<lparr>isInitialized := True\<rparr>"
    using False cd by (simp add: buildVocabulary_def Let_def split_beta)
  have "map snd (vocabulary (snd ?r)) = [0..<fst ?r]"
    using ok by (simp add: tablesOk_def)
  then have "length (map snd (vocabulary (snd ?r))) = length [0..<fst ?r]"
    by (rule arg_cong)
  then have "length (vocabulary (snd ?r)) = fst ?r"
    by simp
  with ok show ?thesis by (simp add: b tablesOk_def)
qed


lemma tablesOk_mapsValid: "tablesOk n e \<Longrightarrow> mapsValid e"
  by (simp add: tablesOk_def mapsValid_def)


lemma mapsValid_buildVocabulary: "mapsValid (buildVocabulary documents e)"
  by (rule tablesOk_mapsValid) (rule buildVocabulary_tablesOk)


lemma mapsValid_applyOp: "mapsValid e \<Longrightarrow> mapsValid (applyOp opn e)"
  by (cases opn)
     (simp_all add: mapsValid_buildVocabulary embed_state,
      simp_all add: mapsValid_def importState_def new_Map_distinct clear_def)


lemma mapsValid_runOps: "mapsValid e \<Longrightarrow> mapsValid (runOps ops e)"
  unfolding runOps_def by (induction ops arbitrary: e) (simp_all add: mapsValid_applyOp)


lemma mapsValid_newEncoder: "mapsValid (newEncoder cfg)"
  by (simp add: mapsValid_def newEncoder_def)

subsection \<open>Term frequencies\<close>





subsection \<open>The emitted vector\<close>






subsection \<open>Round trip\<close>



lemma buildVocabulary_empty:
  "buildVocabulary [] e = e\<lparr>vocabulary := [], documentFrequency := [], idfCache := [],
     totalDocuments := 0, isInitialized := True\<rparr>"
  by (simp add: buildVocabulary_def)

subsection \<open>Concrete encoders\<close>

lemma tokenize_hello: "tokenize defaultConfig ''hello'' = [''hello'']"
  by (simp add: tokenizer_eval defaultConfig_def)

lemma tokenize_empty: "tokenize defaultConfig [] = []"
  by (simp add: tokenizer_eval defaultConfig_def)


lemma tokenize_hello_world: "tokenize defaultConfig ''hello world'' = [''hello'', ''world'']"
  by (simp add: tokenizer_eval defaultConfig_def)

lemma config_newEncoder: "config (newEncoder cfg) = cfg"
  by (simp add: newEncoder_def)

lemma build_hello_empty:
  "buildVocabulary [''hello'', []] (newEncoder defaultConfig) =
     \<lparr>config = defaultConfig, vocabulary = [(''hello'', 0)], documentFrequency = [(''hello'', 1)],
      totalDocuments = 2, avgDocumentLength = 1 / 2, idfCache = [(''hello'', ln 2)],
      isInitialized = True\<rparr>"
  apply (simp add: buildVocabulary_def config_newEncoder tokenize_hello tokenize_empty new_Set_def
      set_add_def map_has_def map_get_def idfOf_def Let_def)
  apply (simp add: newEncoder_def defaultConfig_def)
  done

lemma build_hello_world:
  "buildVocabulary [''hello world'', ''hello''] (newEncoder defaultConfig) =
     \<lparr>config = defaultConfig, vocabulary = [(''world'', 0)], documentFrequency = [(''world'', 1)],
      totalDocuments = 2, avgDocumentLength = 3 / 2, idfCache = [(''world'', ln 2)],
      isInitialized = True\<rparr>"
  apply (simp add: buildVocabulary_def config_newEncoder tokenize_hello tokenize_hello_world new_Set_def
      set_add_def map_has_def map_get_def idfOf_def Let_def)
  apply (simp add: newEncoder_def defaultConfig_def)
  done

text \<open>
  Claim C3 as stated fails when the average document length lies strictly between 0 and 1.
  The corpus of the two documents \<open>hello\<close> and the empty text has the average length 1/2;
  \<open>embed\<close> of \<open>hello\<close> divides by 1/2 and emits \<open>ln 2 \<cdot> 2.2 / 3.1\<close>, the formula with
  \<open>max(avg_document_length, 1)\<close> gives \<open>ln 2\<close>.
\<close>

theorem embed_scores_counterexample:
  "isInitialized (buildVocabulary [''hello'', []] (newEncoder defaultConfig))
   \<and> tokenize defaultConfig ''hello'' \<noteq> []
   \<and> avgDocumentLength (buildVocabulary [''hello'', []] (newEncoder defaultConfig)) = 1 / 2
   \<and> vals (snd (embed ''hello'' (buildVocabulary [''hello'', []] (newEncoder defaultConfig))))
       = [ln 2 * (2.2 / 3.1)]
   \<and> specValues (buildVocabulary [''hello'', []] (newEncoder defaultConfig)) ''hello'' = [ln 2]
   \<and> vals (snd (embed ''hello'' (buildVocabulary [''hello'', []] (newEncoder defaultConfig))))
       \<noteq> specValues (buildVocabulary [''hello'', []] (newEncoder defaultConfig)) ''hello''"
proof -
  have pos: "0 < ln (2::real)" by simp
  have v: "vals (snd (embed ''hello'' (buildVocabulary [''hello'', []] (newEncoder defaultConfig))))
       = [ln 2 * (2.2 / 3.1)]"
    unfolding build_hello_empty
    apply (simp add: embed_def tokenize_hello map_has_def map_get_def bm25Score_def Let_def)
    apply (simp add: defaultConfig_def)
    done
  have s: "specValues (buildVocabulary [''hello'', []] (newEncoder defaultConfig)) ''hello'' = [ln 2]"
    unfolding build_hello_empty
    apply (simp add: specValues_def termFrequencies_def tokenize_hello map_has_def map_get_def
        emitted_def spec_score_def spec_adjusted_tf_def cachedIdf_def)
    apply (simp add: defaultConfig_def)
    done
  have "ln 2 * (2.2 / 3.1) \<noteq> ln (2::real)" using pos by simp
  with v s show ?thesis by (simp add: build_hello_empty tokenize_hello)
qed

text \<open>An instance of claim C3 with the average length 3/2.\<close>

theorem embed_scores_witness:
  "1 \<le> avgDocumentLength (fst (embed ''hello world''
          (buildVocabulary [''hello world'', ''hello''] (newEncoder defaultConfig))))
   \<and> vals (snd (embed ''hello world''
          (buildVocabulary [''hello world'', ''hello''] (newEncoder defaultConfig))))
     = specValues (fst (embed ''hello world''
          (buildVocabulary [''hello world'', ''hello''] (newEncoder defaultConfig)))) ''hello world''"
  using embed_scores [of "''hello world''"
      "buildVocabulary [''hello world'', ''hello''] (newEncoder defaultConfig)", THEN conjunct2]
  by (simp add: embed_state build_hello_world)

text \<open>
  Claim C4 at an initialized encoder. After \<open>build_vocabulary\<close> of the documents \<open>hello\<close> and
  the empty text the average length is 1/2; \<open>build_vocabulary\<close> of the empty list then leaves
  the encoder initialized with an empty vocabulary, but the average length is still 1/2, and
  \<open>export_state\<close> shows it.
\<close>

theorem buildVocabulary_empty_keeps_average:
  "isInitialized (buildVocabulary [''hello'', []] (newEncoder defaultConfig))
   \<and> avgDocumentLength (buildVocabulary [''hello'', []] (newEncoder defaultConfig)) = 1 / 2
   \<and> isInitialized (buildVocabulary [] (buildVocabulary [''hello'', []] (newEncoder defaultConfig)))
   \<and> vocabulary (buildVocabulary [] (buildVocabulary [''hello'', []] (newEncoder defaultConfig))) = []
   \<and> avgDocumentLength
        (buildVocabulary [] (buildVocabulary [''hello'', []] (newEncoder defaultConfig))) = 1 / 2
   \<and> s_avgDocumentLength (exportState
        (buildVocabulary [] (buildVocabulary [''hello'', []] (newEncoder defaultConfig)))) \<noteq> 0"
  by (simp add: build_hello_empty buildVocabulary_empty exportState_def)




section \<open>Properties of the adapter\<close>

subsection \<open>Point ids\<close>

lemma hash_doc1: "foldl hashStep 0 ''doc1'' = 3088889"
  by (simp add: hashStep_def charCode_def)

lemma replicate_numeral: "replicate (numeral k) x = x # replicate (pred_numeral k) x"
  by (simp add: numeral_eq_Suc)

lemma uuid_doc1_a: "stringToUuid 1700000000000 ''doc1'' = ''002f21f9-0004-4800-2f21-00000000002f''"
  apply (simp only: stringToUuid_def hash_doc1 Let_def)
  apply (simp add: mathAbs_def hexDigit_def padStart_def sliceLast_def replicate_numeral)
  done

lemma uuid_doc1_b: "stringToUuid 1700000000001 ''doc1'' = ''002f21f9-0004-4801-2f21-00000000002f''"
  apply (simp only: stringToUuid_def hash_doc1 Let_def)
  apply (simp add: mathAbs_def hexDigit_def padStart_def sliceLast_def replicate_numeral)
  done

lemma upsertedPoints_append:
  "upsertedPoints (xs @ ys) = upsertedPoints xs @ upsertedPoints ys"
  by (simp add: upsertedPoints_def)

lemma upsertBatches_success:
  assumes "\<And>batch. upsert be c batch = None" "0 < batchSize"
  shows "upsertedPoints (trace (fst (upsertBatches be c batchSize points i db)))
           = upsertedPoints (trace db) @ drop i points
         \<and> snd (upsertBatches be c batchSize points i db) = None"
  using assms
proof (induction be c batchSize points i db rule: upsertBatches.induct)
  case (1 be c batchSize points i db)
  show ?case
  proof (cases "i < length points")
    case True
    let ?batch = "take batchSize (drop i points)"
    let ?db1 = "db\<lparr>trace := trace db @ [Upsert c ?batch]\<rparr>"
    have step: "upsertBatches be c batchSize points i db
        = upsertBatches be c batchSize points (i + batchSize) ?db1"
      using True "1.prems" by (subst upsertBatches.simps) (simp add: Let_def)
    have "?batch @ drop (i + batchSize) points = drop i points"
      by (metis add.commute append_take_drop_id drop_drop)
    moreover have "upsertedPoints (trace ?db1) = upsertedPoints (trace db) @ ?batch"
      by (simp add: upsertedPoints_append) (simp add: upsertedPoints_def)
    moreover note "1.IH" [OF _ refl refl _ "1.prems"(1) "1.prems"(2)]
    ultimately show ?thesis
      using True "1.prems" by (simp add: step)
  next
    case False
    then show ?thesis by (subst (1 2) upsertBatches.simps) simp
  qed
qed

lemma insertDocuments_trace:
  "trace (fst (insertDocuments be clock c docs db))
     = trace (fst (upsertBatches be c 100 (mapClock plainPoint clock docs) 0 db))"
proof (cases "upsertBatches be c 100 (mapClock plainPoint clock docs) 0 db")
  case (Pair db1 r)
  then show ?thesis by (cases r) (simp_all add: insertDocuments_def)
qed

lemma insertHybrid_trace:
  "trace (fst (insertHybrid be clock c docs db))
     = trace (fst (upsertBatches be c 100 (mapClock hybridPoint clock docs) 0 db))"
proof (cases "upsertBatches be c 100 (mapClock hybridPoint clock docs) 0 db")
  case (Pair db1 r)
  then show ?thesis by (cases r) (simp_all add: insertHybrid_def)
qed

lemma insertHybrid_result:
  "snd (insertHybrid be clock c docs db)
     = snd (upsertBatches be c 100 (mapClock hybridPoint clock docs) 0 db)"
proof (cases "upsertBatches be c 100 (mapClock hybridPoint clock docs) 0 db")
  case (Pair db1 r)
  then show ?thesis by (cases r) (simp_all add: insertHybrid_def)
qed

text \<open>
  Claim C2 at two times one millisecond apart. The third group of the id holds the last three
  hexadecimal digits of \<open>Date.now()\<close>, so the same user id \<open>doc1\<close> is mapped to two different
  backend ids: the point that \<open>insert\<close> creates at the first time is not the point that
  \<open>delete\<close> addresses at the second.
\<close>

theorem stringToUuid_changes_with_time:
  "stringToUuid 1700000000000 ''doc1'' = ''002f21f9-0004-4800-2f21-00000000002f''
   \<and> stringToUuid 1700000000001 ''doc1'' = ''002f21f9-0004-4801-2f21-00000000002f''
   \<and> stringToUuid 1700000000000 ''doc1'' \<noteq> stringToUuid 1700000000001 ''doc1''
   \<and> map pt_id (upsertedPoints (trace (fst
         (insertDocuments twoChannels (\<lambda>i. 1700000000000) ''code'' [sampleDoc None] emptyDb))))
       = [''002f21f9-0004-4800-2f21-00000000002f'']
   \<and> trace (fst (deletePoints twoChannels (\<lambda>i. 1700000000001) ''code'' [''doc1''] emptyDb))
       = [Delete ''code'' [''002f21f9-0004-4801-2f21-00000000002f'']]"
proof -
  have ins: "upsertedPoints (trace (fst
        (insertDocuments twoChannels (\<lambda>i. 1700000000000) ''code'' [sampleDoc None] emptyDb)))
      = [plainPoint 1700000000000 (sampleDoc None)]"
    using upsertBatches_success [of twoChannels "''code''" 100
        "[plainPoint 1700000000000 (sampleDoc None)]" 0 emptyDb]
    by (simp add: insertDocuments_trace mapClock_def)
       (simp add: twoChannels_def emptyDb_def upsertedPoints_def)
  have del: "trace (fst (deletePoints twoChannels (\<lambda>i. 1700000000001) ''code'' [''doc1''] emptyDb))
       = [Delete ''code'' [stringToUuid 1700000000001 ''doc1'']]"
    by (simp add: deletePoints_def mapClock_def emptyDb_def twoChannels_def Let_def)
  show ?thesis
    unfolding ins del
    by (simp add: uuid_doc1_a uuid_doc1_b plainPoint_def sampleDoc_def)
qed

subsection \<open>Hybrid insertion\<close>

lemma hybridPoint_payload: "pt_payload (hybridPoint t doc) = payloadOf doc"
  by (simp add: hybridPoint_def Let_def)

lemma payloadOf_sparseVector: "payloadOf (doc\<lparr>sparseVector := sv\<rparr>) = payloadOf doc"
  by (simp add: payloadOf_def)

lemma hybridPoint_dense_only:
  "\<not> hasSparse doc \<Longrightarrow> pt_vector (hybridPoint t doc) = Named [(''dense'', DenseVec (vector doc))]"
  by (simp add: hybridPoint_def)

lemma hybridPoint_dense_sparse:
  "sparseVector doc = Some sv \<Longrightarrow> indices sv \<noteq> [] \<Longrightarrow>
   pt_vector (hybridPoint t doc)
     = Named [(''dense'', DenseVec (vector doc)), (''sparse'', SparseVec sv)]"
  by (simp add: hybridPoint_def hasSparse_def)

text \<open>
  Claim C10. The point that \<open>insertHybrid\<close> builds for a document whose sparse vector is absent
  or has no indices carries the named vector \<open>dense\<close> alone; for a document with a non-empty
  sparse vector it carries \<open>dense\<close> and \<open>sparse\<close>. The payload is built from the document's
  fields and does not depend on the sparse vector. When no upsert fails, the points sent to
  the backend are these points, one for each document, in order.
\<close>

theorem insertHybrid_named_vectors:
  "(sparseVector doc = None \<or> (\<exists>sv. sparseVector doc = Some sv \<and> indices sv = [])
      \<longrightarrow> pt_vector (hybridPoint t doc) = Named [(''dense'', DenseVec (vector doc))])
   \<and> (\<forall>sv. sparseVector doc = Some sv \<and> indices sv \<noteq> []
      \<longrightarrow> pt_vector (hybridPoint t doc)
            = Named [(''dense'', DenseVec (vector doc)), (''sparse'', SparseVec sv)])
   \<and> pt_payload (hybridPoint t doc) = payloadOf doc
   \<and> pt_payload (hybridPoint t (doc\<lparr>sparseVector := other\<rparr>)) = pt_payload (hybridPoint t doc)
   \<and> ((\<forall>batch. upsert be c batch = None)
      \<longrightarrow> upsertedPoints (trace (fst (insertHybrid be clock c docs db)))
            = upsertedPoints (trace db) @ map (\<lambda>(i, d). hybridPoint (clock i) d) (enumerate 0 docs)
          \<and> snd (insertHybrid be clock c docs db) = None)"
proof -
  have 1: "pt_vector (hybridPoint t doc) = Named [(''dense'', DenseVec (vector doc))]"
    if "sparseVector doc = None \<or> (\<exists>sv. sparseVector doc = Some sv \<and> indices sv = [])"
    using that by (intro hybridPoint_dense_only) (auto simp: hasSparse_def)
  have 2: "upsertedPoints (trace (fst (insertHybrid be clock c docs db)))
            = upsertedPoints (trace db) @ map (\<lambda>(i, d). hybridPoint (clock i) d) (enumerate 0 docs)
          \<and> snd (insertHybrid be clock c docs db) = None"
    if "\<forall>batch. upsert be c batch = None"
    using upsertBatches_success [of be c 100 "mapClock hybridPoint clock docs" 0 db] that
    by (simp add: insertHybrid_trace insertHybrid_result) (simp add: mapClock_def)
  from 1 2 show ?thesis
    by (simp add: hybridPoint_dense_sparse hybridPoint_payload payloadOf_sparseVector)
qed

text \<open>An instance of claim C10 with one document of each kind.\<close>

theorem insertHybrid_named_vectors_witness:
  "(sparseVector (sampleDoc None) = None
      \<or> (\<exists>sv. sparseVector (sampleDoc None) = Some sv \<and> indices sv = []))
   \<and> pt_vector (hybridPoint 1700000000000 (sampleDoc None)) = Named [(''dense'', DenseVec [0.1, 0.2])]
   \<and> sparseVector (sampleDoc (Some \<lparr>indices = [4], vals = [1.5]\<rparr>))
       = Some \<lparr>indices = [4], vals = [1.5]\<rparr>
   \<and> indices \<lparr>indices = [4], vals = [1.5]\<rparr> \<noteq> []
   \<and> pt_vector (hybridPoint 1700000000000 (sampleDoc (Some \<lparr>indices = [4], vals = [1.5]\<rparr>)))
       = Named [(''dense'', DenseVec [0.1, 0.2]),
                (''sparse'', SparseVec \<lparr>indices = [4], vals = [1.5]\<rparr>)]
   \<and> (\<forall>batch. upsert twoChannels ''code'' batch = None)
   \<and> upsertedPoints (trace (fst (insertHybrid twoChannels (\<lambda>i. 1700000000000) ''code''
         [sampleDoc None, sampleDoc (Some \<lparr>indices = [4], vals = [1.5]\<rparr>)] emptyDb)))
       = [hybridPoint 1700000000000 (sampleDoc None),
          hybridPoint 1700000000000 (sampleDoc (Some \<lparr>indices = [4], vals = [1.5]\<rparr>))]"
  using insertHybrid_named_vectors [of "sampleDoc None" 1700000000000 None twoChannels "''code''"
      "\<lambda>i. 1700000000000" "[sampleDoc None, sampleDoc (Some \<lparr>indices = [4], vals = [1.5]\<rparr>)]" emptyDb]
    insertHybrid_named_vectors [of "sampleDoc (Some \<lparr>indices = [4], vals = [1.5]\<rparr>)" 1700000000000
      None twoChannels "''code''" "\<lambda>i. 1700000000000" "[]" emptyDb]
  by (simp add: sampleDoc_def twoChannels_def emptyDb_def upsertedPoints_def)

subsection \<open>Skipped requests\<close>

lemma searchCalls_append: "searchCalls (xs @ ys) = searchCalls xs @ searchCalls ys"
  by (simp add: searchCalls_def)

lemma isHybridCollection_searchCalls:
  "searchCalls (trace (snd (isHybridCollection be c db))) = searchCalls (trace db)"
  by (simp add: isHybridCollection_def Let_def searchCalls_def split: sum.splits bool.splits)

lemma isHybridCollection_console:
  "console (snd (isHybridCollection be c db)) = console db"
  by (simp add: isHybridCollection_def Let_def split: sum.splits bool.splits)

lemma searchRequest_emptySparse:
  assumes "emptySparse request"
  shows "snd (searchRequest be c callLimit options request db allResults) = Inr allResults
     \<and> searchCalls (trace (fst (searchRequest be c callLimit options request db allResults)))
         = searchCalls (trace db)"
proof -
  from assms obtain sv where d: "data request = Sparse sv" and e: "indices sv = []"
    by (auto simp: emptySparse_def split: request_data.splits)
  obtain isHybrid db1 where h: "isHybridCollection be c db = (isHybrid, db1)"
    by (cases "isHybridCollection be c db")
  have t: "searchCalls (trace db1) = searchCalls (trace db)"
    using isHybridCollection_searchCalls [of be c db] h by simp
  obtain filt msgs where f:
    "(case (case options of None \<Rightarrow> None | Some opts \<Rightarrow> filterExpr opts) of
        None \<Rightarrow> (None, [])
      | Some expr \<Rightarrow> if expr = [] then (None, []) else parseFilterExpression expr) = (filt, msgs)"
    by (cases "(case (case options of None \<Rightarrow> None | Some opts \<Rightarrow> filterExpr opts) of
        None \<Rightarrow> (None, [])
      | Some expr \<Rightarrow> if expr = [] then (None, []) else parseFilterExpression expr)")
  show ?thesis
    unfolding searchRequest_def by (simp add: d e h f t isSparseVector_def)
qed

lemma searchRequests_emptySparse:
  "list_all emptySparse requests \<Longrightarrow>
   snd (searchRequests be c callLimit options requests db allResults) = Inr allResults
   \<and> searchCalls (trace (fst (searchRequests be c callLimit options requests db allResults)))
       = searchCalls (trace db)"
proof (induction requests arbitrary: db)
  case Nil
  then show ?case by simp
next
  case (Cons request requests)
  obtain db1 r where s: "searchRequest be c callLimit options request db allResults = (db1, r)"
    by (cases "searchRequest be c callLimit options request db allResults")
  from Cons.prems have "emptySparse request" by simp
  from searchRequest_emptySparse [OF this, of be c callLimit options db allResults] s
  have r: "r = Inr allResults" and t: "searchCalls (trace db1) = searchCalls (trace db)" by simp_all
  from Cons.prems have "list_all emptySparse requests" by simp
  from Cons.IH [OF this, of db1] show ?case by (simp add: s r t)
qed

lemma applyReranking_empty: "applyReranking [] rr = []"
  by (simp add: applyReranking_def sortByScore_def Let_def)

text \<open>
  Claim C9. A request whose data is a sparse vector without indices leaves the accumulated
  results as they are and sends no search request to the backend; when every request of a
  call is of this kind, \<open>hybridSearch\<close> returns the empty list and sends no search request.
\<close>

theorem hybridSearch_skips_empty_sparse:
  "(emptySparse request \<longrightarrow>
      snd (searchRequest be c callLimit options request db allResults) = Inr allResults
      \<and> searchCalls (trace (fst (searchRequest be c callLimit options request db allResults)))
          = searchCalls (trace db))
   \<and> (list_all emptySparse requests \<longrightarrow>
      snd (hybridSearch be c requests options db) = Inr []
      \<and> searchCalls (trace (fst (hybridSearch be c requests options db))) = searchCalls (trace db))"
proof -
  have "snd (hybridSearch be c requests options db) = Inr []
      \<and> searchCalls (trace (fst (hybridSearch be c requests options db))) = searchCalls (trace db)"
    if a: "list_all emptySparse requests"
  proof -
    let ?l = "orElse (case options of None \<Rightarrow> None | Some opts \<Rightarrow> o_limit opts) (\<lambda>n. n = 0) 10"
    obtain db1 r where s: "searchRequests be c ?l options requests db [] = (db1, r)"
      by (cases "searchRequests be c ?l options requests db []")
    from searchRequests_emptySparse [OF a, of be c ?l options db "[]"] s
    have "r = Inr []" and "searchCalls (trace db1) = searchCalls (trace db)" by simp_all
    then show ?thesis by (simp add: hybridSearch_def s applyReranking_empty)
  qed
  with searchRequest_emptySparse [of request be c callLimit options db allResults]
  show ?thesis by blast
qed

text \<open>An instance of claim C9 with one empty sparse request.\<close>

theorem hybridSearch_skips_empty_sparse_witness:
  "emptySparse \<lparr>data = Sparse \<lparr>indices = [], vals = []\<rparr>, anns_field = Some ''sparse'', limit = None\<rparr>
   \<and> list_all emptySparse
        [\<lparr>data = Sparse \<lparr>indices = [], vals = []\<rparr>, anns_field = Some ''sparse'', limit = None\<rparr>]
   \<and> snd (hybridSearch twoChannels ''code''
        [\<lparr>data = Sparse \<lparr>indices = [], vals = []\<rparr>, anns_field = Some ''sparse'', limit = None\<rparr>]
        None emptyDb) = Inr []
   \<and> searchCalls (trace (fst (hybridSearch twoChannels ''code''
        [\<lparr>data = Sparse \<lparr>indices = [], vals = []\<rparr>, anns_field = Some ''sparse'', limit = None\<rparr>]
        None emptyDb))) = []"
  using hybridSearch_skips_empty_sparse [of
      "\<lparr>data = Sparse \<lparr>indices = [], vals = []\<rparr>, anns_field = Some ''sparse'', limit = None\<rparr>"
      twoChannels "''code''" 10 None emptyDb "[]"
      "[\<lparr>data = Sparse \<lparr>indices = [], vals = []\<rparr>, anns_field = Some ''sparse'', limit = None\<rparr>]"]
  by (simp add: emptySparse_def emptyDb_def searchCalls_def)

subsection \<open>Rank fusion\<close>

text \<open>The fused score of a document is a function of the number of its scores alone.\<close>

lemma rrfScore_sum:
  "rrfScore k scs = sum_list (map (\<lambda>i. 1 / (k + real i + 1)) [0..<length scs])"
proof -
  have "foldl (\<lambda>sum (x, idx). sum + 1 / (k + real idx + 1)) a (zip scs [0..<length scs])
      = a + sum_list (map (\<lambda>i. 1 / (k + real i + 1)) [0..<length scs])" for a
  proof (induction scs rule: rev_induct)
    case Nil
    then show ?case by simp
  next
    case (snoc x xs)
    have "zip (xs @ [x]) [0..<length (xs @ [x])] = zip xs [0..<length xs] @ [(x, length xs)]"
      by simp
    with snoc show ?case by simp
  qed
  from this [of 0] show ?thesis by (simp add: rrfScore_def)
qed

lemma map_set_fresh': "map_of m k = None \<Longrightarrow> map_set k v m = m @ [(k, v)]"
  by (induction m) (auto split: if_splits)

lemma map_set_last: "map_of m k = None \<Longrightarrow> map_set k v (m @ [(k, w)]) = m @ [(k, v)]"
  by (induction m) (auto split: if_splits)

lemma collect_hit_new:
  "map_of allResults i = None \<Longrightarrow> i \<noteq> [] \<Longrightarrow>
   collectResults d (hit i s # rest) allResults
     = collectResults d rest
         (allResults @ [(i, \<lparr>document = resultDoc i (case d of Dense v \<Rightarrow> v | _ \<Rightarrow> []),
                              scores = [s]\<rparr>)])"
  by (simp add: hit_def orElse_def map_has_def map_get_def Let_def resultDoc_def map_set_fresh'
      map_set_last map_add_def)

lemma collect_hit_old:
  "map_of allResults i = Some entry \<Longrightarrow> i \<noteq> [] \<Longrightarrow>
   collectResults d (hit i s # rest) allResults
     = collectResults d rest (map_set i (entry\<lparr>scores := scores entry @ [s]\<rparr>) allResults)"
  by (simp add: hit_def orElse_def map_has_def map_get_def Let_def)

lemma isSparseField_dense:
  "isSparseField \<lparr>data = d, anns_field = Some ''dense'', limit = l\<rparr> = False"
  by (simp add: isSparseField_def stringIncludes_def upt_rec)

lemma isHybrid_first:
  "isHybridCollection twoChannels ''code'' emptyDb
     = (True, \<lparr>hybridCollections = [''code''], trace = [GetCollection ''code''], console = []\<rparr>)"
  by (simp add: isHybridCollection_def twoChannels_def emptyDb_def set_add_def)

lemma isHybrid_cached:
  "isHybridCollection be ''code'' \<lparr>hybridCollections = [''code''], trace = tr, console = co\<rparr>
     = (True, \<lparr>hybridCollections = [''code''], trace = tr, console = co\<rparr>)"
  by (simp add: isHybridCollection_def)

lemma req1:
  "searchRequest twoChannels ''code'' 10 None
     \<lparr>data = Dense [0.1, 0.2], anns_field = Some ''dense'', limit = Some 10\<rparr> emptyDb []
   = (\<lparr>hybridCollections = [''code''],
       trace = [GetCollection ''code'',
                Search ''code'' \<lparr>q_name = Some ''dense'', q_vector = Dense [0.1, 0.2],
                                 q_limit = 10, q_filter = None\<rparr>],
       console = []\<rparr>,
      Inr [(''A'', \<lparr>document = resultDoc ''A'' [0.1, 0.2], scores = [0.9]\<rparr>)])"
  apply (simp only: searchRequest_def isHybrid_first isSparseField_dense)
  apply (simp add: isSparseVector_def Let_def twoChannels_def orElse_def denseChannel_def
      collect_hit_new collect_hit_old del: collectResults.simps(2))
  done

lemma req2:
  "searchRequest twoChannels ''code'' 10 None
     \<lparr>data = Sparse \<lparr>indices = [4], vals = [1.5]\<rparr>, anns_field = Some ''sparse'', limit = Some 10\<rparr>
     \<lparr>hybridCollections = [''code''], trace = tr, console = []\<rparr>
     [(''A'', \<lparr>document = resultDoc ''A'' [0.1, 0.2], scores = [0.9]\<rparr>)]
   = (\<lparr>hybridCollections = [''code''],
       trace = tr @ [Search ''code'' \<lparr>q_name = Some ''sparse'',
                        q_vector = Sparse \<lparr>indices = [4], vals = [1.5]\<rparr>,
                        q_limit = 10, q_filter = None\<rparr>],
       console = [LogSparseSearch 1]\<rparr>,
      Inr [(''A'', \<lparr>document = resultDoc ''A'' [0.1, 0.2], scores = [0.9, 3]\<rparr>),
           (''X'', \<lparr>document = resultDoc ''X'' [], scores = [7]\<rparr>),
           (''Y'', \<lparr>document = resultDoc ''Y'' [], scores = [5]\<rparr>)])"
  apply (simp only: searchRequest_def isHybrid_cached)
  apply (simp add: isSparseVector_def Let_def twoChannels_def orElse_def sparseChannel_def
      collect_hit_new collect_hit_old del: collectResults.simps(2))
  done

lemma fuse:
  "applyReranking
     [(''A'', \<lparr>document = resultDoc ''A'' [0.1, 0.2], scores = [0.9, 3]\<rparr>),
      (''X'', \<lparr>document = resultDoc ''X'' [], scores = [7]\<rparr>),
      (''Y'', \<lparr>document = resultDoc ''Y'' [], scores = [5]\<rparr>)] None
   = [\<lparr>r_document = resultDoc ''A'' [0.1, 0.2], r_score = 1 / 61 + 1 / 62\<rparr>,
      \<lparr>r_document = resultDoc ''X'' [], r_score = 1 / 61\<rparr>,
      \<lparr>r_document = resultDoc ''Y'' [], r_score = 1 / 61\<rparr>]"
  by (simp add: applyReranking_def orElse_def rrfScore_def sortByScore_def upt_rec)

text \<open>
  Claim C1 on two channels. The dense channel returns \<open>A\<close> at rank 0, the sparse channel
  returns \<open>X\<close>, \<open>Y\<close>, \<open>A\<close>, so \<open>A\<close> has the ranks 0 and 2 and \<open>Y\<close> the rank 1. The fused
  score of \<open>A\<close> is \<open>1/61 + 1/62\<close> where the formula of the claim gives \<open>1/61 + 1/63\<close>, and the
  score of \<open>Y\<close> is \<open>1/61\<close> where the formula gives \<open>1/62\<close>: the index used is the position of the
  score in the document's own list of scores, not the rank of the document in the channel.
\<close>

theorem hybridSearch_rrf_uses_channel_count:
  "snd (hybridSearch twoChannels ''code'' twoRequests None emptyDb)
   = Inr [\<lparr>r_document = resultDoc ''A'' [0.1, 0.2], r_score = 1 / 61 + 1 / 62\<rparr>,
      \<lparr>r_document = resultDoc ''X'' [], r_score = 1 / 61\<rparr>,
      \<lparr>r_document = resultDoc ''Y'' [], r_score = 1 / 61\<rparr>]
   \<and> rankIn ''A'' denseChannel = Some 0 \<and> rankIn ''A'' sparseChannel = Some 2
   \<and> spec_rrf 60 ''A'' [denseChannel, sparseChannel] = 1 / 61 + 1 / 63
   \<and> rankIn ''Y'' denseChannel = None \<and> rankIn ''Y'' sparseChannel = Some 1
   \<and> spec_rrf 60 ''Y'' [denseChannel, sparseChannel] = 1 / 62"
  apply (simp only: hybridSearch_def twoRequests_def searchRequests.simps option.case orElse_def
      req1 req2 prod.case sum.case Let_def snd_conv fuse if_False)
  apply (simp add: rankIn_def spec_rrf_def denseChannel_def sparseChannel_def hit_def orElse_def)
  done

section \<open>Properties of the filter parser\<close>

subsection \<open>Character classes\<close>


lemma space_not_quote: "isSpace c \<Longrightarrow> \<not> isQuote c"
  by (auto simp: isSpace_def isQuote_def)


lemma char_classes [simp]:
  "isSpace (CHR '' '')" "\<not> isWordChar (CHR '' '')" "\<not> isSpace (CHR ''i'')" "\<not> isSpace (CHR ''['')"
  "\<not> isSpace (CHR ''='')" "\<not> isSpace (CHR ''!'')" "\<not> isWordChar (CHR ''='')"
  "\<not> isWordChar (CHR ''!'')" "\<not> isQuote (CHR '' '')" "\<not> isSpace (CHR '','')"
  by (simp_all add: isSpace_def isWordChar_def isLowerAZ_def isUpperAZ_def isDigit_def
      isQuote_def charCode_def)



subsection \<open>Runs\<close>



subsection \<open>Search\<close>










subsection \<open>Values\<close>








lemma plain_not_quote: "plainChar c \<Longrightarrow> \<not> isQuote c"
  by (simp add: plainChar_def)






subsection \<open>The three forms\<close>
















end
